theory Spec2Isabelle
  imports Main "HOL-Library.Word"
begin

section \<open>Strings and errors of the host language\<close>

text \<open>
  A TypeScript string is a sequence of UTF-16 code units: \<open>length\<close>, \<open>slice\<close> and the
  regular expressions of the plugin all count code units. Literals of the source that are
  plain ASCII are written \<open>js ''...''\<close>; the Korean texts are given by their code units.
\<close>

type_synonym jschar = "16 word"
type_synonym jsstring = "jschar list"

definition js :: "string \<Rightarrow> jsstring" where
  "js s = map of_char s"

text \<open>A thrown \<open>Error\<close> object; the plugin only ever reads its \<open>message\<close>.\<close>

datatype error = Error (message: jsstring)

text \<open>Template literals print a non-negative integer in decimal.\<close>

fun digits :: "nat \<Rightarrow> jsstring" where
  "digits n = (if n < 10 then [of_nat (48 + n)] else digits (n div 10) @ [of_nat (48 + n mod 10)])"

declare digits.simps [simp del]

section \<open>Settings, requests and responses\<close>

datatype provider = Gemini | OpenAI | Anthropic

record settings =
  aiProvider :: provider
  openaiApiKey :: jsstring
  anthropicApiKey :: jsstring
  geminiApiKey :: jsstring
  openaiModel :: jsstring
  anthropicModel :: jsstring
  geminiModel :: jsstring
  outputLanguage :: jsstring

definition API_TIMEOUT :: nat where "API_TIMEOUT = 60000"
definition MAX_RETRIES :: nat where "MAX_RETRIES = 3"
definition RETRY_DELAY :: nat where "RETRY_DELAY = 1000"

text \<open>
  One outbound request, as \<open>requestUrl\<close> receives it: the provider addressed, the
  credential and model placed in the URL, headers or body, and the prompt.
\<close>

record request =
  req_provider :: provider
  req_key :: jsstring
  req_model :: jsstring
  req_prompt :: jsstring

text \<open>
  The response of the host's \<open>requestUrl\<close>. \<open>json_content\<close> is the string found at the
  provider's path of \<open>response.json\<close> (\<open>choices[0].message.content\<close>,
  \<open>content[0].text\<close> or \<open>candidates[0].content.parts[0].text\<close>), \<open>None\<close> when the
  optional chain yields \<open>undefined\<close> or \<open>null\<close>; \<open>finishReason\<close> is
  \<open>candidates[0].finishReason\<close>, read by the Gemini client only.
\<close>

record response =
  status :: nat
  text_of :: jsstring
  json_content :: "jsstring option"
  finishReason :: "jsstring option"

text \<open>
  What \<open>withTimeout\<close> races: the request settles (with a response or a rejection) before
  the timer, or the timer fires first.
\<close>

datatype outcome = Responded response | Rejected error | TimedOut

text \<open>
  The vault of the host: what \<open>getAbstractFileByPath\<close> finds at a path is a file (with
  its text and the path of its parent folder, \<open>parent?.path\<close>) or a folder.
\<close>

datatype entry = TFile (data: jsstring) (parentPath: "jsstring option") | TFolder

record TopicSuggestion =
  title :: jsstring
  description :: jsstring
  outline :: "jsstring list"

datatype Persona = Essay | Blog | Academic | Twitter | Newsletter | Storytelling | Custom

datatype ArticleLength = Short | Medium | Long

record GenerationOptions =
  opt_topic :: TopicSuggestion
  opt_persona :: Persona
  opt_length :: ArticleLength
  opt_customInstructions :: "jsstring option"

text \<open>
  The world outside the modal and the AI calls, as far as they touch it: the number of
  provider client invocations, the requests sent, the backoff waits (milliseconds) and the
  progress texts handed to the caller's sink, each in order of occurrence; the session's
  materials note, the vault, the calls of \<open>vault.create\<close> (path and body), the notices
  shown, the files opened in a leaf, and the number of times the modal asked the plugin for
  topic suggestions.
\<close>

record world =
  calls :: nat
  sent :: "request list"
  sleeps :: "nat list"
  progress :: "jsstring list"
  materialNotePath :: "jsstring option"
  vault :: "(jsstring \<times> entry) list"
  creates :: "(jsstring \<times> jsstring) list"
  notices :: "jsstring list"
  opened :: "jsstring list"
  suggestCalls :: nat

text \<open>
  The environment of a run: the settings and the collaborators that the plugin does not
  implement. \<open>net env k r\<close> is how the request \<open>r\<close>, issued after \<open>k\<close> earlier
  requests, ends. \<open>suggest\<close> is \<open>plugin.generateTopicSuggestions\<close> as the modal sees it,
  at its declared result type \<open>TopicSuggestion[]\<close> (the cast inside the method is
  unchecked). \<open>nowISO\<close> is \<open>new Date().toISOString()\<close>, \<open>createFails\<close> tells for
  which paths the host's \<open>vault.create\<close> throws, \<open>parentOf\<close> gives the parent folder
  of a file the host creates, and \<open>openFile\<close> gives the error of \<open>leaf.openFile\<close>, if it
  throws.
\<close>

record env =
  settings_of :: settings
  net :: "nat \<Rightarrow> request \<Rightarrow> outcome"
  suggest :: "jsstring \<Rightarrow> world \<Rightarrow> (error + TopicSuggestion list) \<times> world"
  nowISO :: jsstring
  createFails :: "jsstring \<Rightarrow> bool"
  parentOf :: "jsstring \<Rightarrow> jsstring option"
  openFile :: "jsstring \<Rightarrow> error option"

section \<open>Message texts\<close>

definition msg_calling :: "nat \<Rightarrow> nat \<Rightarrow> jsstring" where
  "msg_calling attempt maxAttempts =
     js ''AI '' @ [0xD638, 0xCD9C] @ js '' '' @ [0xC911] @ js ''... ('' @ [0xC2DC, 0xB3C4] @ js '' '' @
     digits attempt @ js ''/'' @ digits maxAttempts @ js '')''"

definition msg_waiting :: "nat \<Rightarrow> jsstring" where
  "msg_waiting seconds =
     [0xC7AC, 0xC2DC, 0xB3C4] @ js '' '' @ [0xB300, 0xAE30] @ js '' '' @ [0xC911] @ js ''... ('' @
     digits seconds @ [0xCD08] @ js '')''"

definition msg_exhausted :: "nat \<Rightarrow> jsstring" where
  "msg_exhausted maxAttempts =
     js ''AI '' @ [0xD638, 0xCD9C] @ js '' '' @ [0xC2E4, 0xD328] @ js '' ('' @ digits maxAttempts @
     [0xD68C] @ js '' '' @ [0xC2DC, 0xB3C4] @ js ''): ''"

definition msg_unknown :: jsstring where
  "msg_unknown =
     [0xC54C] @ js '' '' @ [0xC218] @ js '' '' @ [0xC5C6, 0xB294] @ js '' '' @ [0xC624, 0xB958]"

definition msg_timeout :: "nat \<Rightarrow> jsstring" where
  "msg_timeout seconds =
     [0xC694, 0xCCAD] @ js '' '' @ [0xC2DC, 0xAC04] @ js '' '' @ [0xCD08, 0xACFC] @ js '' ('' @
     digits seconds @ [0xCD08] @ js '')''"

definition providerName :: "provider \<Rightarrow> jsstring" where
  "providerName p = (case p of Gemini \<Rightarrow> js ''Gemini'' | OpenAI \<Rightarrow> js ''OpenAI''
                     | Anthropic \<Rightarrow> js ''Anthropic'')"

definition msg_key_missing :: "provider \<Rightarrow> jsstring" where
  "msg_key_missing p = providerName p @
     js '' API '' @ [0xD0A4, 0xAC00] @ js '' '' @ [0xC124, 0xC815, 0xB418, 0xC9C0] @ js '' '' @
     [0xC54A, 0xC558, 0xC2B5, 0xB2C8, 0xB2E4] @ js ''. '' @ [0xC124, 0xC815, 0xC5D0, 0xC11C] @
     js '' API '' @ [0xD0A4, 0xB97C] @ js '' '' @ [0xC785, 0xB825, 0xD574, 0xC8FC, 0xC138, 0xC694] @
     js ''.''"

definition msg_key_invalid :: "provider \<Rightarrow> jsstring" where
  "msg_key_invalid p = providerName p @
     js '' API '' @ [0xD0A4, 0xAC00] @ js '' '' @ [0xC720, 0xD6A8, 0xD558, 0xC9C0] @ js '' '' @
     [0xC54A, 0xC2B5, 0xB2C8, 0xB2E4] @ js ''.''"

definition msg_gemini_bad_request :: jsstring where
  "msg_gemini_bad_request =
     js ''Gemini API '' @ [0xD0A4, 0xAC00] @ js '' '' @ [0xC720, 0xD6A8, 0xD558, 0xC9C0] @ js '' '' @
     [0xC54A, 0xAC70, 0xB098] @ js '' '' @ [0xC694, 0xCCAD] @ js '' '' @ [0xD615, 0xC2DD, 0xC774] @
     js '' '' @ [0xC798, 0xBABB, 0xB418, 0xC5C8, 0xC2B5, 0xB2C8, 0xB2E4] @ js ''.''"

definition msg_rate_limit :: "provider \<Rightarrow> jsstring" where
  "msg_rate_limit p = providerName p @
     js '' API '' @ [0xC0AC, 0xC6A9, 0xB7C9] @ js '' '' @ [0xD55C, 0xB3C4] @ js '' '' @
     [0xCD08, 0xACFC] @ js ''. '' @ [0xC7A0, 0xC2DC] @ js '' '' @ [0xD6C4] @ js '' '' @
     [0xB2E4, 0xC2DC] @ js '' '' @ [0xC2DC, 0xB3C4, 0xD574, 0xC8FC, 0xC138, 0xC694] @ js ''.''"

definition msg_api_error :: "provider \<Rightarrow> nat \<Rightarrow> jsstring \<Rightarrow> jsstring" where
  "msg_api_error p st body = providerName p @
     js '' API '' @ [0xC624, 0xB958] @ js '' ('' @ digits st @ js ''): '' @
     (if body = [] then msg_unknown else body)"

definition msg_malformed :: "provider \<Rightarrow> jsstring" where
  "msg_malformed p = providerName p @
     js '' '' @ [0xC751, 0xB2F5] @ js '' '' @ [0xD615, 0xC2DD, 0xC774] @ js '' '' @
     [0xC62C, 0xBC14, 0xB974, 0xC9C0] @ js '' '' @ [0xC54A, 0xC2B5, 0xB2C8, 0xB2E4] @ js ''.''"

definition msg_safety :: jsstring where
  "msg_safety =
     [0xC548, 0xC804] @ js '' '' @ [0xD544, 0xD130, 0xC5D0] @ js '' '' @ [0xC758, 0xD574] @ js '' '' @
     [0xC751, 0xB2F5, 0xC774] @ js '' '' @ [0xCC28, 0xB2E8, 0xB418, 0xC5C8, 0xC2B5, 0xB2C8, 0xB2E4] @
     js ''. '' @ [0xB2E4, 0xB978] @ js '' '' @ [0xC18C, 0xC7AC, 0xB85C] @ js '' '' @
     [0xC2DC, 0xB3C4, 0xD574, 0xC8FC, 0xC138, 0xC694] @ js ''.''"

section \<open>Provider clients\<close>

definition onProgress :: "jsstring \<Rightarrow> world \<Rightarrow> world" where
  "onProgress s w = w\<lparr>progress := progress w @ [s]\<rparr>"

definition sleep :: "nat \<Rightarrow> world \<Rightarrow> world" where
  "sleep ms w = w\<lparr>sleeps := sleeps w @ [ms]\<rparr>"

text \<open>\<open>requestUrl\<close>: the request is issued and logged; the network decides how it ends.\<close>

definition requestUrl :: "env \<Rightarrow> request \<Rightarrow> world \<Rightarrow> outcome \<times> world" where
  "requestUrl env r w = (net env (length (sent w)) r, w\<lparr>sent := sent w @ [r]\<rparr>)"

definition withTimeout :: "outcome \<Rightarrow> nat \<Rightarrow> error + response" where
  "withTimeout request timeoutMs =
     (case request of
        Responded r \<Rightarrow> Inr r
      | Rejected e \<Rightarrow> Inl e
      | TimedOut \<Rightarrow> Inl (Error (msg_timeout (timeoutMs div 1000))))"

definition callOpenAIWithTimeout :: "env \<Rightarrow> jsstring \<Rightarrow> world \<Rightarrow> (error + jsstring) \<times> world" where
  "callOpenAIWithTimeout env prompt w =
     (if openaiApiKey (settings_of env) = [] then (Inl (Error (msg_key_missing OpenAI)), w)
      else
        let (request, w') = requestUrl env
              \<lparr>req_provider = OpenAI, req_key = openaiApiKey (settings_of env),
               req_model = openaiModel (settings_of env), req_prompt = prompt\<rparr> w
        in case withTimeout request API_TIMEOUT of
             Inl e \<Rightarrow> (Inl e, w')
           | Inr response \<Rightarrow>
               if status response = 401 then (Inl (Error (msg_key_invalid OpenAI)), w')
               else if status response = 429 then (Inl (Error (msg_rate_limit OpenAI)), w')
               else if status response \<noteq> 200 then
                 (Inl (Error (msg_api_error OpenAI (status response) (text_of response))), w')
               else (case json_content response of
                       None \<Rightarrow> (Inl (Error (msg_malformed OpenAI)), w')
                     | Some c \<Rightarrow> if c = [] then (Inl (Error (msg_malformed OpenAI)), w')
                                 else (Inr c, w')))"

definition callAnthropicWithTimeout :: "env \<Rightarrow> jsstring \<Rightarrow> world \<Rightarrow> (error + jsstring) \<times> world" where
  "callAnthropicWithTimeout env prompt w =
     (if anthropicApiKey (settings_of env) = [] then (Inl (Error (msg_key_missing Anthropic)), w)
      else
        let (request, w') = requestUrl env
              \<lparr>req_provider = Anthropic, req_key = anthropicApiKey (settings_of env),
               req_model = anthropicModel (settings_of env), req_prompt = prompt\<rparr> w
        in case withTimeout request API_TIMEOUT of
             Inl e \<Rightarrow> (Inl e, w')
           | Inr response \<Rightarrow>
               if status response = 401 then (Inl (Error (msg_key_invalid Anthropic)), w')
               else if status response = 429 then (Inl (Error (msg_rate_limit Anthropic)), w')
               else if status response \<noteq> 200 then
                 (Inl (Error (msg_api_error Anthropic (status response) (text_of response))), w')
               else (case json_content response of
                       None \<Rightarrow> (Inl (Error (msg_malformed Anthropic)), w')
                     | Some c \<Rightarrow> if c = [] then (Inl (Error (msg_malformed Anthropic)), w')
                                 else (Inr c, w')))"

definition callGeminiWithTimeout :: "env \<Rightarrow> jsstring \<Rightarrow> world \<Rightarrow> (error + jsstring) \<times> world" where
  "callGeminiWithTimeout env prompt w =
     (if geminiApiKey (settings_of env) = [] then (Inl (Error (msg_key_missing Gemini)), w)
      else
        let (request, w') = requestUrl env
              \<lparr>req_provider = Gemini, req_key = geminiApiKey (settings_of env),
               req_model = geminiModel (settings_of env), req_prompt = prompt\<rparr> w
        in case withTimeout request API_TIMEOUT of
             Inl e \<Rightarrow> (Inl e, w')
           | Inr response \<Rightarrow>
               if status response = 400 then (Inl (Error msg_gemini_bad_request), w')
               else if status response = 429 then (Inl (Error (msg_rate_limit Gemini)), w')
               else if status response \<noteq> 200 then
                 (Inl (Error (msg_api_error Gemini (status response) (text_of response))), w')
               else
                 let malformed =
                       (if finishReason response = Some (js ''SAFETY'')
                        then (Inl (Error msg_safety), w')
                        else (Inl (Error (msg_malformed Gemini)), w'))
                 in (case json_content response of
                       None \<Rightarrow> malformed
                     | Some c \<Rightarrow> if c = [] then malformed else (Inr c, w')))"

section \<open>The retry wrapper\<close>

text \<open>
  One pass of the \<open>try\<close> block of \<open>callAI\<close>: the client of the configured provider is
  invoked, and the invocation is counted.
\<close>

definition callProvider :: "env \<Rightarrow> jsstring \<Rightarrow> world \<Rightarrow> (error + jsstring) \<times> world" where
  "callProvider env prompt w =
     (let w' = w\<lparr>calls := calls w + 1\<rparr> in
      if aiProvider (settings_of env) = Gemini then callGeminiWithTimeout env prompt w'
      else if aiProvider (settings_of env) = OpenAI then callOpenAIWithTimeout env prompt w'
      else callAnthropicWithTimeout env prompt w')"

text \<open>
  The \<open>for\<close> loop of \<open>callAI\<close>, from attempt \<open>attempt\<close> on, with the error of the
  previous attempt in \<open>lastError\<close>; after the loop the aggregated error is thrown.
\<close>

function callAI_from ::
  "env \<Rightarrow> jsstring \<Rightarrow> nat \<Rightarrow> error option \<Rightarrow> world \<Rightarrow> (error + jsstring) \<times> world" where
  "callAI_from env prompt attempt lastError w =
     (if attempt \<le> MAX_RETRIES then
        (case callProvider env prompt (onProgress (msg_calling attempt MAX_RETRIES) w) of
           (Inr result, w') \<Rightarrow> (Inr result, w')
         | (Inl e, w') \<Rightarrow>
             callAI_from env prompt (attempt + 1) (Some e)
               (if attempt < MAX_RETRIES then
                  (let delay = RETRY_DELAY * 2 ^ (attempt - 1)
                   in sleep delay (onProgress (msg_waiting (delay div 1000)) w'))
                else w'))
      else
        (Inl (Error (msg_exhausted MAX_RETRIES @
           (case lastError of
              None \<Rightarrow> msg_unknown
            | Some e \<Rightarrow> if message e = [] then msg_unknown else message e))), w))"
  by pat_completeness auto
termination
  by (relation "measure (\<lambda>(env, prompt, attempt, lastError, w). Suc MAX_RETRIES - attempt)") auto

declare callAI_from.simps [simp del]

definition callAI :: "env \<Rightarrow> jsstring \<Rightarrow> world \<Rightarrow> (error + jsstring) \<times> world" where
  "callAI env prompt w = callAI_from env prompt 1 None w"

section \<open>JSON texts\<close>

text \<open>
  \<open>JSON.parse\<close> is a built-in of the host language. It is modelled after the JSON
  grammar: a lexer produces the tokens, and a pushdown automaton over the tokens builds the
  value. A number keeps its lexeme; an object keeps its members in the order of the text.
\<close>

abbreviation ch :: "char \<Rightarrow> jschar" where
  "ch \<equiv> of_char"

datatype json =
    JNull
  | JBool bool
  | JNumber jsstring
  | JString jsstring
  | JArray "json list"
  | JObject "(jsstring \<times> json) list"

datatype tok =
    LBrack | RBrack | LBrace | RBrace | Comma | Colon
  | TStr jsstring | TNum jsstring | TTrue | TFalse | TNull

definition is_json_ws :: "jschar \<Rightarrow> bool" where
  "is_json_ws c \<longleftrightarrow> c = 0x20 \<or> c = 0x09 \<or> c = 0x0A \<or> c = 0x0D"

definition is_digit :: "jschar \<Rightarrow> bool" where
  "is_digit c \<longleftrightarrow> 0x30 \<le> c \<and> c \<le> 0x39"

definition hex_value :: "jschar \<Rightarrow> jschar option" where
  "hex_value c =
     (if 0x30 \<le> c \<and> c \<le> 0x39 then Some (c - 0x30)
      else if 0x41 \<le> c \<and> c \<le> 0x46 then Some (c - 0x41 + 10)
      else if 0x61 \<le> c \<and> c \<le> 0x66 then Some (c - 0x61 + 10)
      else None)"

definition hex4 :: "jschar \<Rightarrow> jschar \<Rightarrow> jschar \<Rightarrow> jschar \<Rightarrow> jschar option" where
  "hex4 a b c d =
     (case (hex_value a, hex_value b, hex_value c, hex_value d) of
        (Some x, Some y, Some z, Some u) \<Rightarrow> Some (((x * 16 + y) * 16 + z) * 16 + u)
      | _ \<Rightarrow> None)"

definition simple_escape :: "jschar \<Rightarrow> jschar option" where
  "simple_escape e =
     (if e = 0x22 then Some 0x22
      else if e = 0x5C then Some 0x5C
      else if e = ch CHR ''/'' then Some (ch CHR ''/'')
      else if e = ch CHR ''b'' then Some 0x08
      else if e = ch CHR ''f'' then Some 0x0C
      else if e = ch CHR ''n'' then Some 0x0A
      else if e = ch CHR ''r'' then Some 0x0D
      else if e = ch CHR ''t'' then Some 0x09
      else None)"

text \<open>The rest of a string literal after its opening quote: the text and what follows.\<close>

fun lex_string :: "jsstring \<Rightarrow> jsstring \<Rightarrow> (jsstring \<times> jsstring) option" where
  "lex_string acc [] = None"
| "lex_string acc (c # cs) =
     (if c = 0x22 then Some (rev acc, cs)
      else if c = 0x5C then
        (case cs of
           [] \<Rightarrow> None
         | e # r1 \<Rightarrow>
             if e = ch CHR ''u'' then
               (case r1 of
                  h1 # h2 # h3 # h4 # r5 \<Rightarrow>
                    (case hex4 h1 h2 h3 h4 of
                       None \<Rightarrow> None
                     | Some u \<Rightarrow> lex_string (u # acc) r5)
                | _ \<Rightarrow> None)
             else
               (case simple_escape e of
                  None \<Rightarrow> None
                | Some u \<Rightarrow> lex_string (u # acc) r1))
      else if c < 0x20 then None
      else lex_string (c # acc) cs)"

text \<open>
  A number at the head of the text: an optional minus, an integer part without a leading
  zero, an optional fraction and an optional exponent.
\<close>

definition lex_fraction :: "jsstring \<Rightarrow> (jsstring \<times> jsstring) option" where
  "lex_fraction cs =
     (case cs of
        [] \<Rightarrow> Some ([], [])
      | c # r \<Rightarrow>
          if c = ch CHR ''.'' then
            (if takeWhile is_digit r = [] then None
             else Some (c # takeWhile is_digit r, dropWhile is_digit r))
          else Some ([], cs))"

definition lex_exponent :: "jsstring \<Rightarrow> (jsstring \<times> jsstring) option" where
  "lex_exponent cs =
     (case cs of
        [] \<Rightarrow> Some ([], [])
      | c # r \<Rightarrow>
          if c = ch CHR ''e'' \<or> c = ch CHR ''E'' then
            (let (sign, r') =
                   (case r of
                      [] \<Rightarrow> ([], [])
                    | s # r'' \<Rightarrow> if s = ch CHR ''+'' \<or> s = ch CHR ''-'' then ([s], r'') else ([], r))
             in if takeWhile is_digit r' = [] then None
                else Some (c # sign @ takeWhile is_digit r', dropWhile is_digit r'))
          else Some ([], cs))"

definition lex_number :: "jsstring \<Rightarrow> (jsstring \<times> jsstring) option" where
  "lex_number cs =
     (let (sign, r0) =
            (case cs of
               [] \<Rightarrow> ([], [])
             | c # r \<Rightarrow> if c = ch CHR ''-'' then ([c], r) else ([], cs));
          ip = takeWhile is_digit r0
      in if ip = [] \<or> (1 < length ip \<and> hd ip = 0x30) then None
         else (case lex_fraction (dropWhile is_digit r0) of
                 None \<Rightarrow> None
               | Some (frac, r1) \<Rightarrow>
                   (case lex_exponent r1 of
                      None \<Rightarrow> None
                    | Some (ex, r2) \<Rightarrow> Some (sign @ ip @ frac @ ex, r2))))"

lemma lex_string_shorter:
  "lex_string acc cs = Some (s, rest) \<Longrightarrow> length rest < length cs"
proof (induction acc cs rule: lex_string.induct)
  case (1 acc)
  then show ?case by simp
next
  case (2 acc c cs)
  show ?case
  proof (cases "c = 0x22")
    case True
    with 2(4) show ?thesis by simp
  next
    case nq: False
    show ?thesis
    proof (cases "c = 0x5C")
      case bs: True
      show ?thesis
      proof (cases cs)
        case Nil
        with 2(4) nq bs show ?thesis by simp
      next
        case (Cons e r1)
        show ?thesis
        proof (cases "e = ch CHR ''u''")
          case u: True
          from 2(4) nq bs Cons u obtain h1 h2 h3 h4 r5 v where
            r1: "r1 = h1 # h2 # h3 # h4 # r5" and h: "hex4 h1 h2 h3 h4 = Some v"
            and l: "lex_string (v # acc) r5 = Some (s, rest)"
            by (simp split: list.splits option.splits)
          have "length rest < length r5"
            using 2(1) [of e r1 h1 "h2 # h3 # h4 # r5" h2 "h3 # h4 # r5" h3 "h4 # r5" h4 r5 v]
              nq bs Cons u r1 h l by simp
          with Cons r1 show ?thesis by simp
        next
          case nu: False
          from 2(4) nq bs Cons nu obtain v where h: "simple_escape e = Some v"
            and l: "lex_string (v # acc) r1 = Some (s, rest)"
            by (simp split: option.splits)
          from 2(2) [OF nq bs Cons nu h l] Cons show ?thesis by simp
        qed
      qed
    next
      case nbs: False
      with 2(4) nq have nc: "\<not> c < 0x20" and l: "lex_string (c # acc) cs = Some (s, rest)"
        by (simp_all split: if_splits)
      from 2(3) [OF nq nbs nc l] show ?thesis by simp
    qed
  qed
qed

lemma lex_fraction_shorter:
  "lex_fraction cs = Some (f, rest) \<Longrightarrow> length rest \<le> length cs"
  by (auto simp: lex_fraction_def le_SucI length_dropWhile_le split: list.splits if_splits)

lemma lex_exponent_shorter:
  "lex_exponent cs = Some (f, rest) \<Longrightarrow> length rest \<le> length cs"
  by (auto simp: lex_exponent_def le_SucI length_dropWhile_le Let_def
      split: list.splits if_splits prod.splits
      intro: le_trans [OF length_dropWhile_le])

lemma dropWhile_shorter:
  "takeWhile P xs \<noteq> [] \<Longrightarrow> length (dropWhile P xs) < length xs"
  by (induction xs) (auto simp: less_Suc_eq_le length_dropWhile_le split: if_splits)

lemma lex_number_shorter:
  assumes "lex_number cs = Some (lx, rest)"
  shows "length rest < length cs"
proof -
  obtain sign r0 where sr: "(case cs of [] \<Rightarrow> ([], [])
      | c # r \<Rightarrow> if c = ch CHR ''-'' then ([c], r) else ([], cs)) = (sign, r0)"
    by (cases "(case cs of [] \<Rightarrow> ([], [])
      | c # r \<Rightarrow> if c = ch CHR ''-'' then ([c], r) else ([], cs))")
  then have r0: "length r0 \<le> length cs"
    by (auto split: list.splits if_splits)
  from assms sr obtain frac r1 ex where ip: "takeWhile is_digit r0 \<noteq> []"
    and fr: "lex_fraction (dropWhile is_digit r0) = Some (frac, r1)"
    and ex: "lex_exponent r1 = Some (ex, rest)"
    by (auto simp: lex_number_def Let_def split: if_splits option.splits)
  from dropWhile_shorter [OF ip] lex_fraction_shorter [OF fr] lex_exponent_shorter [OF ex] r0
  show ?thesis by linarith
qed

function lex :: "jsstring \<Rightarrow> tok list option" where
  "lex [] = Some []"
| "lex (c # cs) =
     (if is_json_ws c then lex cs
      else if c = ch CHR ''['' then map_option (Cons LBrack) (lex cs)
      else if c = ch CHR '']'' then map_option (Cons RBrack) (lex cs)
      else if c = ch CHR ''{'' then map_option (Cons LBrace) (lex cs)
      else if c = ch CHR ''}'' then map_option (Cons RBrace) (lex cs)
      else if c = ch CHR '','' then map_option (Cons Comma) (lex cs)
      else if c = ch CHR '':'' then map_option (Cons Colon) (lex cs)
      else if c = 0x22 then
        (case lex_string [] cs of
           None \<Rightarrow> None
         | Some (s, rest) \<Rightarrow> map_option (Cons (TStr s)) (lex rest))
      else if c = ch CHR ''-'' \<or> is_digit c then
        (case lex_number (c # cs) of
           None \<Rightarrow> None
         | Some (lx, rest) \<Rightarrow> map_option (Cons (TNum lx)) (lex rest))
      else if take 4 (c # cs) = js ''true'' then map_option (Cons TTrue) (lex (drop 3 cs))
      else if take 5 (c # cs) = js ''false'' then map_option (Cons TFalse) (lex (drop 4 cs))
      else if take 4 (c # cs) = js ''null'' then map_option (Cons TNull) (lex (drop 3 cs))
      else None)"
  by pat_completeness auto
termination
  by (relation "measure length")
     (auto dest: lex_string_shorter lex_number_shorter simp: less_Suc_eq_le)

text \<open>
  The automaton: what is expected next, and the containers that are still open (an array
  with its elements so far, an object with its members so far, the key of the member whose
  value is being read), innermost first.
\<close>

datatype frame = FArray "json list" | FObject "(jsstring \<times> json) list" | FKey jsstring

datatype pstate = Val | ValOrClose | KeyOrClose | Key | AfterKey jsstring | Done json

definition start_value :: "tok \<Rightarrow> frame list \<Rightarrow> (pstate \<times> frame list) option" where
  "start_value t stk =
     (case t of
        TStr s \<Rightarrow> Some (Done (JString s), stk)
      | TNum n \<Rightarrow> Some (Done (JNumber n), stk)
      | TTrue \<Rightarrow> Some (Done (JBool True), stk)
      | TFalse \<Rightarrow> Some (Done (JBool False), stk)
      | TNull \<Rightarrow> Some (Done JNull, stk)
      | LBrack \<Rightarrow> Some (ValOrClose, FArray [] # stk)
      | LBrace \<Rightarrow> Some (KeyOrClose, FObject [] # stk)
      | _ \<Rightarrow> None)"

definition pstep :: "pstate \<Rightarrow> frame list \<Rightarrow> tok \<Rightarrow> (pstate \<times> frame list) option" where
  "pstep st stk t =
     (case st of
        Val \<Rightarrow> start_value t stk
      | ValOrClose \<Rightarrow>
          (case (t, stk) of
             (RBrack, FArray es # stk') \<Rightarrow> Some (Done (JArray (rev es)), stk')
           | _ \<Rightarrow> start_value t stk)
      | KeyOrClose \<Rightarrow>
          (case (t, stk) of
             (RBrace, FObject ms # stk') \<Rightarrow> Some (Done (JObject (rev ms)), stk')
           | (TStr k, _) \<Rightarrow> Some (AfterKey k, stk)
           | _ \<Rightarrow> None)
      | Key \<Rightarrow> (case t of TStr k \<Rightarrow> Some (AfterKey k, stk) | _ \<Rightarrow> None)
      | AfterKey k \<Rightarrow> (case t of Colon \<Rightarrow> Some (Val, FKey k # stk) | _ \<Rightarrow> None)
      | Done v \<Rightarrow>
          (case (t, stk) of
             (Comma, FArray es # stk') \<Rightarrow> Some (Val, FArray (v # es) # stk')
           | (RBrack, FArray es # stk') \<Rightarrow> Some (Done (JArray (rev (v # es))), stk')
           | (Comma, FKey k # FObject ms # stk') \<Rightarrow> Some (Key, FObject ((k, v) # ms) # stk')
           | (RBrace, FKey k # FObject ms # stk') \<Rightarrow>
               Some (Done (JObject (rev ((k, v) # ms))), stk')
           | _ \<Rightarrow> None))"

fun pda :: "pstate \<Rightarrow> frame list \<Rightarrow> tok list \<Rightarrow> json option" where
  "pda st stk [] = (case (st, stk) of (Done v, []) \<Rightarrow> Some v | _ \<Rightarrow> None)"
| "pda st stk (t # ts) =
     (case pstep st stk t of
        None \<Rightarrow> None
      | Some (st', stk') \<Rightarrow> pda st' stk' ts)"

text \<open>\<open>JSON.parse\<close>: \<open>None\<close> stands for the \<open>SyntaxError\<close> it throws.\<close>

definition JSON_parse :: "jsstring \<Rightarrow> json option" where
  "JSON_parse s = (case lex s of None \<Rightarrow> None | Some ts \<Rightarrow> pda Val [] ts)"

section \<open>Prompts\<close>

text \<open>The fixed wording of the two prompts, cut at the places where values are spliced in.\<close>

definition topicPrompt_head :: jsstring where
  "topicPrompt_head =
     js ''You are a creative writing assistant helping a writer '' @
     js ''craft compelling articles from their collected materials.'' @ [0x000A, 0x000A] @
     js ''**CRITICAL: All output must be written in ''"

definition topicPrompt_materials :: jsstring where
  "topicPrompt_materials =
     js ''.**'' @ [0x000A, 0x000A] @ js ''## Collected Materials:'' @ [0x000A]"

definition topicPrompt_task :: jsstring where
  "topicPrompt_task =
     [0x000A, 0x000A] @ js ''## Your Task:'' @ [0x000A] @
     js ''Analyze the materials deeply and suggest **5 unique '' @
     js ''topic angles** for an article. Each suggestion should '' @
     js ''offer a distinct perspective:'' @ [0x000A, 0x000A] @
     js ''1. **Mainstream Angle**: A conventional, accessible '' @
     js ''approach that most readers would expect'' @ [0x000A] @
     js ''2. **Contrarian Angle**: A perspective that challenges '' @
     js ''common assumptions or conventional wisdom'' @ [0x000A] @
     js ''3. **Personal/Emotional Angle**: A deeply personal, '' @
     js ''story-driven approach'' @ [0x000A] @
     js ''4. **Analytical/Deep-dive Angle**: A thorough, research-oriented '' @
     js ''perspective'' @ [0x000A] @
     js ''5. **Provocative/Bold Angle**: A daring, attention-grabbing '' @
     js ''take that sparks discussion'' @ [0x000A, 0x000A] @
     js ''For each suggestion, provide:'' @ [0x000A] @
     js ''- **title**: An engaging, click-worthy title (10-15 '' @ js ''words max)'' @
     [0x000A] @ js ''- **description**: A 2-3 sentence description of '' @
     js ''the angle and why it'' @ [0x0027] @ js ''s compelling'' @ [0x000A] @
     js ''- **outline**: 4-6 key points that structure the '' @ js ''article'' @
     [0x000A, 0x000A] @
     js ''Respond ONLY with valid JSON (no markdown, no explanation):'' @ [0x000A] @
     js ''['' @ [0x000A] @ js ''  {'' @ [0x000A] @ js ''    '' @ [0x0022] @ js ''title'' @
     [0x0022] @ js '': '' @ [0x0022, 0xC81C, 0xBAA9, 0x0022] @ js '','' @ [0x000A] @
     js ''    '' @ [0x0022] @ js ''description'' @ [0x0022] @ js '': '' @
     [0x0022, 0xC124, 0xBA85, 0x0022] @ js '','' @ [0x000A] @ js ''    '' @ [0x0022] @
     js ''outline'' @ [0x0022] @ js '': ['' @ [0x0022, 0xD3EC, 0xC778, 0xD2B8] @
     js ''1'' @ [0x0022] @ js '', '' @ [0x0022, 0xD3EC, 0xC778, 0xD2B8] @ js ''2'' @
     [0x0022] @ js '', '' @ [0x0022, 0xD3EC, 0xC778, 0xD2B8] @ js ''3'' @ [0x0022] @
     js '', '' @ [0x0022, 0xD3EC, 0xC778, 0xD2B8] @ js ''4'' @ [0x0022] @ js '']'' @
     [0x000A] @ js ''  }'' @ [0x000A] @ js '']''"

definition articlePrompt_head :: jsstring where
  "articlePrompt_head =
     [0xB2F9, 0xC2E0, 0xC740] @ js '' ''"

definition articlePrompt_title :: jsstring where
  "articlePrompt_title =
     [0xB85C] @ js '' '' @ [0xAE00, 0xC744] @ js '' '' @ [0xC4F0, 0xB294] @ js '' '' @
     [0xC219, 0xB828, 0xB41C] @ js '' '' @ [0xC791, 0xAC00, 0xC785, 0xB2C8, 0xB2E4] @
     js ''.'' @ [0x000A, 0x000A] @ js ''## '' @ [0xAE00] @ js '' '' @
     [0xC815, 0xBCF4, 0x000A] @ js ''- **'' @ [0xC81C, 0xBAA9] @ js ''**: ''"

definition articlePrompt_approach :: jsstring where
  "articlePrompt_approach =
     [0x000A] @ js ''- **'' @ [0xC811, 0xADFC] @ js '' '' @ [0xBC29, 0xC2DD] @
     js ''**: ''"

definition articlePrompt_outline :: jsstring where
  "articlePrompt_outline =
     [0x000A] @ js ''- **'' @ [0xC544, 0xC6C3, 0xB77C, 0xC778] @ js ''**:'' @ [0x000A]"

definition articlePrompt_materials :: jsstring where
  "articlePrompt_materials =
     [0x000A, 0x000A] @ js ''## '' @ [0xCC38, 0xACE0] @ js '' '' @
     [0xC18C, 0xC7AC, 0x000A]"

definition articlePrompt_style :: jsstring where
  "articlePrompt_style =
     [0x000A, 0x000A] @ js ''## '' @ [0xC791, 0xC131] @ js '' '' @
     [0xC9C0, 0xCE68, 0x000A] @ js ''- **'' @ [0xC2A4, 0xD0C0, 0xC77C] @ js ''**: ''"

definition articlePrompt_length :: jsstring where
  "articlePrompt_length =
     [0x000A] @ js ''- **'' @ [0xBD84, 0xB7C9] @ js ''**: ''"

definition articlePrompt_custom :: jsstring where
  "articlePrompt_custom =
     [0x000A]"

definition articlePrompt_rules :: jsstring where
  "articlePrompt_rules =
     [0x000A, 0x000A] @ js ''## '' @ [0xC911, 0xC694] @ js '' '' @
     [0xADDC, 0xCE59, 0x000A] @ js ''1. '' @ [0xBC18, 0xB4DC, 0xC2DC] @ js '' ''"

definition articlePrompt_tail :: jsstring where
  "articlePrompt_tail =
     [0xB85C] @ js '' '' @ [0xC791, 0xC131, 0xD558, 0xC138, 0xC694, 0x000A] @ js ''2. '' @
     [0xC218, 0xC9D1, 0xB41C] @ js '' '' @ [0xC18C, 0xC7AC, 0xC758] @ js '' '' @
     [0xB0B4, 0xC6A9, 0xACFC] @ js '' '' @ [0xC791, 0xC131, 0xC790, 0xC758] @ js '' '' @
     [0xC0DD, 0xAC01, 0xC744] @ js '' '' @ [0xC790, 0xC5F0, 0xC2A4, 0xB7FD, 0xAC8C] @
     js '' '' @ [0xB179, 0xC5EC, 0xB0B4, 0xC138, 0xC694, 0x000A] @ js ''3. '' @
     [0xC18C, 0xC7AC, 0xC640] @ js '' '' @ [0xBAA8, 0xC21C, 0xB418, 0xB294] @ js '' '' @
     [0xB0B4, 0xC6A9, 0xC744] @ js '' '' @ [0xCD94, 0xAC00, 0xD558, 0xC9C0] @ js '' '' @
     [0xB9C8, 0xC138, 0xC694, 0x000A] @ js ''4. '' @ [0xC791, 0xC131, 0xC790, 0xC758] @
     js '' '' @ [0xACE0, 0xC720, 0xD55C] @ js '' '' @ [0xAD00, 0xC810, 0xACFC] @
     js '' '' @ [0xBAA9, 0xC18C, 0xB9AC, 0xB97C] @ js '' '' @
     [0xC720, 0xC9C0, 0xD558, 0xC138, 0xC694, 0x000A] @ js ''5. '' @
     [0xC544, 0xC6C3, 0xB77C, 0xC778] @ js '' '' @ [0xAD6C, 0xC870, 0xB97C] @ js '' '' @
     [0xB530, 0xB974, 0xB418] @ js '', '' @ [0xC790, 0xC5F0, 0xC2A4, 0xB7EC, 0xC6B4] @
     js '' '' @ [0xD750, 0xB984, 0xC744] @ js '' '' @
     [0xB9CC, 0xB4DC, 0xC138, 0xC694, 0x000A] @ js ''6. '' @
     [0xB3C4, 0xC785, 0xBD80, 0xC5D0, 0xC11C] @ js '' '' @ [0xB3C5, 0xC790, 0xC758] @
     js '' '' @ [0xAD00, 0xC2EC, 0xC744] @ js '' '' @ [0xC0AC, 0xB85C, 0xC7A1, 0xACE0] @
     js '', '' @ [0xACB0, 0xB860, 0xC5D0, 0xC11C] @ js '' '' @ [0xC5EC, 0xC6B4, 0xC744] @
     js '' '' @ [0xB0A8, 0xAE30, 0xC138, 0xC694, 0x000A, 0x000A, 0xC9C0, 0xAE08] @
     js '' '' @ [0xBC14, 0xB85C] @ js '' '' @ [0xC644, 0xC131, 0xB41C] @ js '' '' @
     [0xAE00, 0xC744] @ js '' '' @ [0xC791, 0xC131, 0xD558, 0xC138, 0xC694] @ js '':''"

definition custom_label :: jsstring where
  "custom_label =
     js ''- **'' @ [0xCD94, 0xAC00] @ js '' '' @ [0xC9C0, 0xC2DC] @ js ''**: ''"

definition default_language :: jsstring where
  "default_language =
     [0xD55C, 0xAD6D, 0xC5B4]"

definition personaPrompt_essay :: jsstring where
  "personaPrompt_essay =
     [0xAE4A, 0xC774] @ js '' '' @ [0xC788, 0xB294] @ js '' '' @
     [0xC131, 0xCC30, 0xC801] @ js '' '' @ [0xC5D0, 0xC138, 0xC774] @ js '' '' @
     [0xC2A4, 0xD0C0, 0xC77C] @ js ''. '' @ [0xBB38, 0xD559, 0xC801] @ js '' '' @
     [0xAE30, 0xBC95, 0xACFC] @ js '' '' @ [0xAC1C, 0xC778, 0xC801] @ js '' '' @
     [0xD1B5, 0xCC30, 0xC744] @ js '' '' @ [0xD65C, 0xC6A9, 0xD558, 0xC138, 0xC694] @
     js ''. '' @ [0xC740, 0xC720] @ js '', '' @ [0xBE44, 0xC720, 0xB97C] @ js '' '' @
     [0xC801, 0xC808, 0xD788] @ js '' '' @ [0xC0AC, 0xC6A9, 0xD558, 0xACE0] @ js '' '' @
     [0xB3C5, 0xC790, 0xC758] @ js '' '' @ [0xAC10, 0xC815, 0xC5D0] @ js '' '' @
     [0xD638, 0xC18C, 0xD558, 0xC138, 0xC694] @ js ''.''"

definition personaPrompt_blog :: jsstring where
  "personaPrompt_blog =
     [0xCE5C, 0xADFC, 0xD558, 0xACE0] @ js '' '' @ [0xB300, 0xD654, 0xD558, 0xB4EF] @
     js '' '' @ [0xC4F0, 0xB294] @ js '' '' @ [0xBE14, 0xB85C, 0xADF8] @ js '' '' @
     [0xC2A4, 0xD0C0, 0xC77C] @ js ''. '' @ [0xC811, 0xADFC, 0xD558, 0xAE30] @ js '' '' @
     [0xC27D, 0xC9C0, 0xB9CC] @ js '' '' @ [0xB0B4, 0xC6A9, 0xC740] @ js '' '' @
     [0xCDA9, 0xC2E4, 0xD558, 0xAC8C] @ js ''. '' @ [0xB3C5, 0xC790, 0xC5D0, 0xAC8C] @
     js '' '' @ [0xC9C1, 0xC811] @ js '' '' @ [0xB9D0, 0xC744] @ js '' '' @
     [0xAC70, 0xB294] @ js '' '' @ [0xB4EF, 0xD55C] @ js '' '' @ [0xD1A4, 0xC744] @
     js '' '' @ [0xC720, 0xC9C0, 0xD558, 0xC138, 0xC694] @ js ''.''"

definition personaPrompt_academic :: jsstring where
  "personaPrompt_academic =
     [0xD559, 0xC220, 0xC801, 0xC774, 0xACE0] @ js '' '' @
     [0xB17C, 0xC99D, 0xC801, 0xC778] @ js '' '' @ [0xC2A4, 0xD0C0, 0xC77C] @ js ''. '' @
     [0xBA85, 0xD655, 0xD55C] @ js '' '' @ [0xB17C, 0xB9AC] @ js '' '' @
     [0xAD6C, 0xC870, 0xC640] @ js '' '' @ [0xADFC, 0xAC70] @ js '' '' @
     [0xC81C, 0xC2DC] @ js ''. '' @ [0xAC1D, 0xAD00, 0xC801, 0xC778] @ js '' '' @
     [0xD1A4, 0xC744] @ js '' '' @ [0xC720, 0xC9C0, 0xD558, 0xBA70] @ js '' '' @
     [0xCCB4, 0xACC4, 0xC801, 0xC73C, 0xB85C] @ js '' '' @
     [0xC11C, 0xC220, 0xD558, 0xC138, 0xC694] @ js ''.''"

definition personaPrompt_twitter :: jsstring where
  "personaPrompt_twitter =
     [0xD2B8, 0xC704, 0xD130] @ js ''/X '' @ [0xC2A4, 0xB808, 0xB4DC] @ js '' '' @
     [0xD615, 0xC2DD] @ js ''. '' @ [0xC9E7, 0xACE0] @ js '' '' @
     [0xAC15, 0xB82C, 0xD55C] @ js '' '' @ [0xBB38, 0xC7A5] @ js ''. '' @ [0xAC01] @
     js '' '' @ [0xD2B8, 0xC717, 0xC740] @ js '' '' @ [0xBC88, 0xD638, 0xB97C] @
     js '' '' @ [0xB9E4, 0xAE30, 0xACE0] @ js '', '' @ [0xD6C5] @ js ''(hook)'' @
     [0xC73C, 0xB85C] @ js '' '' @ [0xC2DC, 0xC791, 0xD574] @ js '' '' @
     [0xAE34, 0xC7A5, 0xAC10, 0xC744] @ js '' '' @
     [0xC720, 0xC9C0, 0xD558, 0xC138, 0xC694] @ js ''. '' @ [0xC774, 0xBAA8, 0xC9C0] @
     js '' '' @ [0xC801, 0xC808, 0xD788] @ js '' '' @ [0xD65C, 0xC6A9] @ js ''.''"

definition personaPrompt_newsletter :: jsstring where
  "personaPrompt_newsletter =
     [0xB274, 0xC2A4, 0xB808, 0xD130] @ js '' '' @ [0xC2A4, 0xD0C0, 0xC77C] @ js ''. '' @
     [0xB3C5, 0xC790, 0xC5D0, 0xAC8C] @ js '' '' @ [0xAC00, 0xCE58] @ js '' '' @
     [0xC788, 0xB294] @ js '' '' @ [0xC778, 0xC0AC, 0xC774, 0xD2B8] @ js '' '' @
     [0xC804, 0xB2EC] @ js ''. '' @ [0xD575, 0xC2EC] @ js '' '' @
     [0xD3EC, 0xC778, 0xD2B8, 0xB97C] @ js '' '' @ [0xBA85, 0xD655, 0xD788] @ js '' '' @
     [0xD558, 0xACE0] @ js '', '' @ [0xC2E4, 0xD589] @ js '' '' @
     [0xAC00, 0xB2A5, 0xD55C] @ js '' '' @ [0xC870, 0xC5B8, 0xC744] @ js '' '' @
     [0xD3EC, 0xD568, 0xD558, 0xC138, 0xC694] @ js ''.''"

definition personaPrompt_storytelling :: jsstring where
  "personaPrompt_storytelling =
     [0xC2A4, 0xD1A0, 0xB9AC, 0xD154, 0xB9C1] @ js '' '' @ [0xC2A4, 0xD0C0, 0xC77C] @
     js ''. '' @ [0xC774, 0xC57C, 0xAE30, 0xB85C] @ js '' '' @ [0xC2DC, 0xC791, 0xD574] @
     js '' '' @ [0xB3C5, 0xC790, 0xB97C] @ js '' '' @
     [0xB04C, 0xC5B4, 0xB4E4, 0xC774, 0xC138, 0xC694] @ js ''. '' @
     [0xAD6C, 0xCCB4, 0xC801, 0xC778] @ js '' '' @ [0xC0AC, 0xB840, 0xC640] @ js '' '' @
     [0xC0DD, 0xC0DD, 0xD55C] @ js '' '' @ [0xBB18, 0xC0AC, 0xB97C] @ js '' '' @
     [0xD65C, 0xC6A9, 0xD558, 0xC138, 0xC694] @ js ''.''"

definition personaPrompt_custom :: jsstring where
  "personaPrompt_custom =
     [0xBA85, 0xD655, 0xD558, 0xACE0] @ js '' '' @ [0xC804, 0xBB38, 0xC801, 0xC778] @
     js '' '' @ [0xC2A4, 0xD0C0, 0xC77C] @ js ''. '' @ [0xC811, 0xADFC, 0xC131, 0xACFC] @
     js '' '' @ [0xAE4A, 0xC774, 0xC758] @ js '' '' @ [0xADE0, 0xD615, 0xC744] @
     js '' '' @ [0xB9DE, 0xCD94, 0xC138, 0xC694] @ js ''.''"

definition lengthGuide_short :: jsstring where
  "lengthGuide_short =
     js ''800-1200'' @ [0xC790] @ js '' '' @ [0xBD84, 0xB7C9, 0xC758] @ js '' '' @
     [0xAC04, 0xACB0, 0xD55C] @ js '' '' @ [0xAE00] @ js ''. '' @
     [0xD575, 0xC2EC, 0xB9CC] @ js '' '' @ [0xBA85, 0xD655, 0xD558, 0xAC8C] @ js '' '' @
     [0xC804, 0xB2EC, 0xD558, 0xC138, 0xC694] @ js ''.''"

definition lengthGuide_medium :: jsstring where
  "lengthGuide_medium =
     js ''2000-3000'' @ [0xC790] @ js '' '' @ [0xBD84, 0xB7C9, 0xC758] @ js '' '' @
     [0xC801, 0xB2F9, 0xD55C] @ js '' '' @ [0xAE38, 0xC774] @ js ''. '' @
     [0xCDA9, 0xBD84, 0xD55C] @ js '' '' @ [0xC124, 0xBA85, 0xACFC] @ js '' '' @
     [0xC608, 0xC2DC, 0xB97C] @ js '' '' @ [0xD3EC, 0xD568, 0xD558, 0xC138, 0xC694] @
     js ''.''"

definition lengthGuide_long :: jsstring where
  "lengthGuide_long =
     js ''4000-5000'' @ [0xC790] @ js '' '' @ [0xBD84, 0xB7C9, 0xC758] @ js '' '' @
     [0xC2EC, 0xCE35] @ js '' '' @ [0xAE00] @ js ''. '' @ [0xC790, 0xC138, 0xD55C] @
     js '' '' @ [0xBD84, 0xC11D] @ js '', '' @ [0xB2E4, 0xC591, 0xD55C] @ js '' '' @
     [0xAD00, 0xC810] @ js '', '' @ [0xD48D, 0xBD80, 0xD55C] @ js '' '' @
     [0xC608, 0xC2DC, 0xB97C] @ js '' '' @ [0xD3EC, 0xD568, 0xD558, 0xC138, 0xC694] @
     js ''.''"

definition personaPrompts :: "Persona \<Rightarrow> jsstring" where
  "personaPrompts p =
     (case p of
        Essay \<Rightarrow> personaPrompt_essay
      | Blog \<Rightarrow> personaPrompt_blog
      | Academic \<Rightarrow> personaPrompt_academic
      | Twitter \<Rightarrow> personaPrompt_twitter
      | Newsletter \<Rightarrow> personaPrompt_newsletter
      | Storytelling \<Rightarrow> personaPrompt_storytelling
      | Custom \<Rightarrow> personaPrompt_custom)"

definition lengthGuides :: "ArticleLength \<Rightarrow> jsstring" where
  "lengthGuides l =
     (case l of Short \<Rightarrow> lengthGuide_short | Medium \<Rightarrow> lengthGuide_medium
      | Long \<Rightarrow> lengthGuide_long)"

text \<open>\<open>Array.prototype.join\<close>.\<close>

fun join :: "jsstring \<Rightarrow> jsstring list \<Rightarrow> jsstring" where
  "join sep [] = []"
| "join sep [x] = x"
| "join sep (x # y # ys) = x @ sep @ join sep (y # ys)"

definition language_of :: "env \<Rightarrow> jsstring" where
  "language_of env =
     (if outputLanguage (settings_of env) = [] then default_language
      else outputLanguage (settings_of env))"

definition topicPrompt :: "jsstring \<Rightarrow> jsstring \<Rightarrow> jsstring" where
  "topicPrompt language materialsContent =
     topicPrompt_head @ language @ topicPrompt_materials @ materialsContent @ topicPrompt_task"

definition numberedOutline :: "jsstring list \<Rightarrow> jsstring" where
  "numberedOutline ps =
     join [0x0A] (map (\<lambda>(i, p). js ''  '' @ digits (i + 1) @ js ''. '' @ p) (enumerate 0 ps))"

definition articlePrompt :: "jsstring \<Rightarrow> jsstring \<Rightarrow> GenerationOptions \<Rightarrow> jsstring" where
  "articlePrompt language materialsContent options =
     articlePrompt_head @ language @
     articlePrompt_title @ title (opt_topic options) @
     articlePrompt_approach @ description (opt_topic options) @
     articlePrompt_outline @ numberedOutline (outline (opt_topic options)) @
     articlePrompt_materials @ materialsContent @
     articlePrompt_style @ personaPrompts (opt_persona options) @
     articlePrompt_length @ lengthGuides (opt_length options) @
     articlePrompt_custom @
     (case opt_customInstructions options of
        None \<Rightarrow> []
      | Some c \<Rightarrow> if c = [] then [] else custom_label @ c) @
     articlePrompt_rules @ language @ articlePrompt_tail"

section \<open>Topic suggestions and article text\<close>

definition msg_analyzing :: jsstring where
  "msg_analyzing =
     [0xC18C, 0xC7AC] @ js '' '' @ [0xBD84, 0xC11D] @ js '' '' @ [0xC911] @ js ''...''"

definition msg_generating :: jsstring where
  "msg_generating =
     [0xAE00] @ js '' '' @ [0xC0DD, 0xC131] @ js '' '' @ [0xC911] @ js ''...''"

definition msg_topic_parse_failed :: jsstring where
  "msg_topic_parse_failed =
     [0xC8FC, 0xC81C] @ js '' '' @ [0xC81C, 0xC548] @ js '' '' @ [0xD30C, 0xC2F1] @
     js '' '' @ [0xC2E4, 0xD328] @ js '': AI '' @ [0xC751, 0xB2F5] @ js '' '' @
     [0xD615, 0xC2DD, 0xC774] @ js '' '' @ [0xC62C, 0xBC14, 0xB974, 0xC9C0] @ js '' '' @
     [0xC54A, 0xC2B5, 0xB2C8, 0xB2E4] @ js ''.''"

text \<open>
  The match of \<open>/\[[\s\S]*?\]/\<close>: the pattern starts at the first opening bracket, and
  its lazy quantifier stops at the first closing bracket after it.
\<close>

definition jsonMatch :: "jsstring \<Rightarrow> jsstring option" where
  "jsonMatch response =
     (case dropWhile (\<lambda>c. c \<noteq> ch CHR ''['') response of
        [] \<Rightarrow> None
      | b # rest \<Rightarrow>
          if ch CHR '']'' \<in> set rest
          then Some (b # takeWhile (\<lambda>c. c \<noteq> ch CHR '']'') rest @ [ch CHR '']''])
          else None)"

text \<open>
  The \<open>try\<close> block of \<open>generateTopicSuggestions\<close>; \<open>None\<close> when it throws, be it the
  \<open>SyntaxError\<close> of \<open>JSON.parse\<close> or the block's own error. The elements are returned
  as parsed: the cast to \<open>TopicSuggestion[]\<close> checks nothing.
\<close>

definition tryParseTopics :: "jsstring \<Rightarrow> json list option" where
  "tryParseTopics response =
     (case jsonMatch response of
        None \<Rightarrow> None
      | Some m \<Rightarrow>
          (case JSON_parse m of
             Some (JArray topics) \<Rightarrow> if topics \<noteq> [] then Some (take 5 topics) else None
           | _ \<Rightarrow> None))"

definition generateTopicSuggestions ::
  "env \<Rightarrow> jsstring \<Rightarrow> world \<Rightarrow> (error + json list) \<times> world" where
  "generateTopicSuggestions env materialsContent w =
     (case callAI env (topicPrompt (language_of env) materialsContent)
             (onProgress msg_analyzing w) of
        (Inl e, w') \<Rightarrow> (Inl e, w')
      | (Inr response, w') \<Rightarrow>
          (case tryParseTopics response of
             Some topics \<Rightarrow> (Inr topics, w')
           | None \<Rightarrow> (Inl (Error msg_topic_parse_failed), w')))"

definition generateArticle ::
  "env \<Rightarrow> jsstring \<Rightarrow> GenerationOptions \<Rightarrow> world \<Rightarrow> (error + jsstring) \<times> world" where
  "generateArticle env materialsContent options w =
     callAI env (articlePrompt (language_of env) materialsContent options)
       (onProgress msg_generating w)"

section \<open>Creating the article note\<close>

text \<open>
  Decimal rendering is injective: the numbered file names of the loop in
  \<open>createArticleNote\<close> are pairwise different, which is why the loop ends.
\<close>

definition undigits :: "jsstring \<Rightarrow> nat" where
  "undigits s = foldl (\<lambda>a c. 10 * a + (unat c - 48)) 0 s"

lemma unat_digit: "d < 10 \<Longrightarrow> unat (of_nat (48 + d) :: jschar) = 48 + d"
  by (simp only: unat_of_nat) simp

lemma unat_digit': "d < 10 \<Longrightarrow> unat (48 + of_nat d :: jschar) = 48 + d"
  using unat_digit [of d] by simp

lemma undigits_digits: "undigits (digits n) = n"
proof (induction n rule: digits.induct)
  case (1 n)
  show ?case
  proof (cases "n < 10")
    case True
    then show ?thesis
      by (subst digits.simps) (simp add: undigits_def unat_digit')
  next
    case False
    have "n mod 10 < 10" by simp
    from unat_digit' [OF this] 1 [OF False] False show ?thesis
      by (subst digits.simps) (simp add: undigits_def)
  qed
qed

lemma inj_digits: "inj digits"
  by (rule inj_on_inverseI [where g = undigits]) (rule undigits_digits)


definition getAbstractFileByPath :: "world \<Rightarrow> jsstring \<Rightarrow> entry option" where
  "getAbstractFileByPath w p = map_of (vault w) p"

definition is_forbidden :: "jschar \<Rightarrow> bool" where
  "is_forbidden c \<longleftrightarrow> c \<in> set [0x5C, ch CHR ''/'', ch CHR '':'', ch CHR ''*'', ch CHR ''?'', 0x22,
                                  ch CHR ''<'', ch CHR ''>'', ch CHR ''|'']"

definition baseName_of :: "jsstring \<Rightarrow> jsstring" where
  "baseName_of t = take 50 (map (\<lambda>c. if is_forbidden c then ch CHR ''-'' else c) t)"

definition notePath :: "jsstring \<Rightarrow> jsstring \<Rightarrow> jsstring" where
  "notePath folder name =
     (if folder \<noteq> [] then folder @ js ''/'' @ name @ js ''.md'' else name @ js ''.md'')"

definition numbered :: "jsstring \<Rightarrow> jsstring \<Rightarrow> nat \<Rightarrow> jsstring" where
  "numbered folder baseName counter = notePath folder (baseName @ js '' '' @ digits counter)"

lemma inj_numbered: "inj (numbered folder baseName)"
proof (rule injI)
  fix x y
  assume "numbered folder baseName x = numbered folder baseName y"
  then have "digits x = digits y"
    by (simp add: numbered_def notePath_def split: if_splits)
  then show "x = y" by (rule injD [OF inj_digits])
qed

lemma exists_iff: "getAbstractFileByPath w p \<noteq> None \<longleftrightarrow> p \<in> fst ` set (vault w)"
  by (simp add: getAbstractFileByPath_def map_of_eq_None_iff)

definition taken_from :: "world \<Rightarrow> jsstring \<Rightarrow> jsstring \<Rightarrow> nat \<Rightarrow> nat set" where
  "taken_from w folder baseName counter =
     {k. counter \<le> k \<and> getAbstractFileByPath w (numbered folder baseName k) \<noteq> None}"

lemma finite_taken_from: "finite (taken_from w folder baseName counter)"
proof -
  have "taken_from w folder baseName counter \<subseteq> numbered folder baseName -` (fst ` set (vault w))"
    unfolding taken_from_def exists_iff by auto
  moreover have "finite (numbered folder baseName -` (fst ` set (vault w)))"
    by (rule finite_vimageI [OF _ inj_numbered]) simp
  ultimately show ?thesis by (rule finite_subset)
qed

function freeName :: "world \<Rightarrow> jsstring \<Rightarrow> jsstring \<Rightarrow> jsstring \<Rightarrow> nat \<Rightarrow> jsstring" where
  "freeName w folder baseName fileName counter =
     (if getAbstractFileByPath w fileName \<noteq> None
      then freeName w folder baseName (numbered folder baseName counter) (counter + 1)
      else fileName)"
  by pat_completeness auto
termination
proof (relation "measure (\<lambda>(w, folder, baseName, fileName, counter).
          (if getAbstractFileByPath w fileName \<noteq> None then 1 else 0) +
          2 * card (taken_from w folder baseName counter))")
  show "wf (measure (\<lambda>(w, folder, baseName, fileName, counter).
          (if getAbstractFileByPath w fileName \<noteq> None then 1 else 0) +
          2 * card (taken_from w folder baseName counter)))"
    by simp
next
  fix w :: world and folder baseName fileName :: jsstring and counter :: nat
  assume ex: "getAbstractFileByPath w fileName \<noteq> None"
  let ?T = "taken_from w folder baseName"
  have sub: "?T (counter + 1) \<subseteq> ?T counter"
    by (auto simp: taken_from_def)
  show "((w, folder, baseName, numbered folder baseName counter, counter + 1),
         (w, folder, baseName, fileName, counter)) \<in>
        measure (\<lambda>(w, folder, baseName, fileName, counter).
          (if getAbstractFileByPath w fileName \<noteq> None then 1 else 0) +
          2 * card (taken_from w folder baseName counter))"
  proof (cases "getAbstractFileByPath w (numbered folder baseName counter) \<noteq> None")
    case True
    then have "counter \<in> ?T counter" and "counter \<notin> ?T (counter + 1)"
      by (auto simp: taken_from_def)
    with sub have "?T (counter + 1) \<subset> ?T counter" by blast
    from psubset_card_mono [OF finite_taken_from this] ex True show ?thesis by simp
  next
    case False
    from card_mono [OF finite_taken_from sub] ex False show ?thesis by simp
  qed
qed

declare freeName.simps [simp del]


text \<open>\<open>String.prototype.split\<close> with a one-unit separator.\<close>

fun splitOn :: "jschar \<Rightarrow> jsstring \<Rightarrow> jsstring list" where
  "splitOn d [] = [[]]"
| "splitOn d (c # cs) =
     (if c = d then [] # splitOn d cs
      else (case splitOn d cs of [] \<Rightarrow> [[c]] | x # xs \<Rightarrow> (c # x) # xs))"

text \<open>\<open>replace(/\.md$/, "")\<close>.\<close>

definition stripMd :: "jsstring \<Rightarrow> jsstring" where
  "stripMd p =
     (if 3 \<le> length p \<and> drop (length p - 3) p = js ''.md'' then take (length p - 3) p else p)"

text \<open>A template literal prints \<open>undefined\<close> for a missing value.\<close>

definition printed :: "jsstring option \<Rightarrow> jsstring" where
  "printed v = (case v of None \<Rightarrow> js ''undefined'' | Some s \<Rightarrow> s)"

definition pop :: "jsstring list \<Rightarrow> jsstring option" where
  "pop xs = (case rev xs of [] \<Rightarrow> None | x # _ \<Rightarrow> Some x)"

definition first :: "jsstring list \<Rightarrow> jsstring option" where
  "first xs = (case xs of [] \<Rightarrow> None | x # _ \<Rightarrow> Some x)"

definition fullContent :: "jsstring \<Rightarrow> jsstring \<Rightarrow> jsstring \<Rightarrow> jsstring \<Rightarrow> jsstring" where
  "fullContent topicTitle materialBasename date content =
     js ''# '' @ topicTitle @ [0x0A, 0x0A] @
     js ''> [!info] Generated with Thinking Tool'' @ [0x0A] @
     js ''> Materials: [['' @ materialBasename @ js '']]'' @ [0x0A] @
     js ''> Generated: '' @ date @ [0x0A, 0x0A] @
     js ''---'' @ [0x0A, 0x0A] @
     content @ [0x0A, 0x0A] @
     js ''---'' @ [0x0A, 0x0A] @
     js ''## Sources'' @ [0x0A, 0x0A] @
     js ''- Materials: [['' @ materialBasename @ js '']]'' @ [0x0A]"

text \<open>
  \<open>vault.create\<close>: the call is logged; it throws when the host refuses the path or
  something is already there, and otherwise the file is in the vault afterwards.
\<close>

definition vault_create :: "env \<Rightarrow> jsstring \<Rightarrow> jsstring \<Rightarrow> world \<Rightarrow> jsstring option \<times> world" where
  "vault_create env path body w =
     (let w' = w\<lparr>creates := creates w @ [(path, body)]\<rparr>
      in if createFails env path \<or> getAbstractFileByPath w path \<noteq> None then (None, w')
         else (Some path, w'\<lparr>vault := vault w @ [(path, TFile body (parentOf env path))]\<rparr>))"

definition createArticleNote ::
  "env \<Rightarrow> jsstring \<Rightarrow> TopicSuggestion \<Rightarrow> world \<Rightarrow> jsstring option \<times> world" where
  "createArticleNote env content topic w =
     (case materialNotePath w of
        None \<Rightarrow> (None, w)
      | Some mp \<Rightarrow>
          if mp = [] then (None, w)
          else
            (case getAbstractFileByPath w mp of
               Some (TFile d parent) \<Rightarrow>
                 (let folder = (case parent of None \<Rightarrow> [] | Some p \<Rightarrow> p);
                      baseName = baseName_of (title topic);
                      fileName = freeName w folder baseName (notePath folder baseName) 1;
                      materialBasename = printed (pop (splitOn (ch CHR ''/'') (stripMd mp)));
                      date = printed (first (splitOn (ch CHR ''T'') (nowISO env)))
                  in vault_create env fileName
                       (fullContent (title topic) materialBasename date content) w)
             | _ \<Rightarrow> (None, w)))"

lemma freeName_free:
  "getAbstractFileByPath w (freeName w folder baseName fileName counter) = None"
proof (induction w folder baseName fileName counter rule: freeName.induct)
  case (1 w folder baseName fileName counter)
  show ?case
  proof (cases "getAbstractFileByPath w fileName \<noteq> None")
    case True
    with 1 show ?thesis by (subst freeName.simps) simp
  next
    case False
    then show ?thesis by (subst freeName.simps) simp
  qed
qed

lemma freeName_shape:
  "freeName w folder baseName fileName counter = fileName \<or>
   (getAbstractFileByPath w fileName \<noteq> None \<and>
    (\<exists>k\<ge>counter. freeName w folder baseName fileName counter = numbered folder baseName k \<and>
       (\<forall>j. counter \<le> j \<and> j < k \<longrightarrow> getAbstractFileByPath w (numbered folder baseName j) \<noteq> None)))"
proof (induction w folder baseName fileName counter rule: freeName.induct)
  case (1 w folder baseName fileName counter)
  show ?case
  proof (cases "getAbstractFileByPath w fileName \<noteq> None")
    case False
    then show ?thesis by (subst freeName.simps) simp
  next
    case True
    let ?next = "freeName w folder baseName (numbered folder baseName counter) (counter + 1)"
    have unfold: "freeName w folder baseName fileName counter = ?next"
      using True by (subst freeName.simps) simp
    from 1 [OF True] consider
      (stop) "?next = numbered folder baseName counter"
      | (go) k where "counter + 1 \<le> k" "?next = numbered folder baseName k"
          "getAbstractFileByPath w (numbered folder baseName counter) \<noteq> None"
          "\<forall>j. counter + 1 \<le> j \<and> j < k \<longrightarrow>
               getAbstractFileByPath w (numbered folder baseName j) \<noteq> None"
      by blast
    then show ?thesis
    proof cases
      case stop
      with True unfold show ?thesis by auto
    next
      case go
      have "\<forall>j. counter \<le> j \<and> j < k \<longrightarrow>
               getAbstractFileByPath w (numbered folder baseName j) \<noteq> None"
      proof (intro allI impI)
        fix j assume "counter \<le> j \<and> j < k"
        then have "j = counter \<or> (counter + 1 \<le> j \<and> j < k)" by auto
        with go(3,4) show "getAbstractFileByPath w (numbered folder baseName j) \<noteq> None" by blast
      qed
      with True unfold go(1,2) show ?thesis
        by (intro disjI2 conjI exI [of _ k]) auto
    qed
  qed
qed

section \<open>The article wizard\<close>

definition msg_preparing :: jsstring where
  "msg_preparing =
     [0xAE00] @ js '' '' @ [0xC0DD, 0xC131] @ js '' '' @ [0xC900, 0xBE44] @ js '' '' @
     [0xC911] @ js ''...''"

definition msg_note_failed :: jsstring where
  "msg_note_failed =
     [0xB178, 0xD2B8] @ js '' '' @ [0xC0DD, 0xC131, 0xC5D0] @ js '' '' @
     [0xC2E4, 0xD328, 0xD588, 0xC2B5, 0xB2C8, 0xB2E4] @ js ''.''"

definition msg_created :: jsstring where
  "msg_created =
     [0x2705] @ js '' '' @ [0xAE00, 0xC774] @ js '' '' @
     [0xC0DD, 0xC131, 0xB418, 0xC5C8, 0xC2B5, 0xB2C8, 0xB2E4] @ js ''!''"

definition msg_enter_topic :: jsstring where
  "msg_enter_topic =
     [0xC8FC, 0xC81C, 0xB97C] @ js '' '' @
     [0xC785, 0xB825, 0xD574, 0xC8FC, 0xC138, 0xC694] @ js ''.''"

definition msg_min_two :: jsstring where
  "msg_min_two =
     [0xCD5C, 0xC18C] @ js '' 2'' @ [0xAC1C] @ js '' '' @ [0xC774, 0xC0C1, 0xC758] @
     js '' '' @ [0xD56D, 0xBAA9, 0xC774] @ js '' '' @
     [0xD544, 0xC694, 0xD569, 0xB2C8, 0xB2E4] @ js ''.''"

definition custom_description :: jsstring where
  "custom_description =
     [0xC0AC, 0xC6A9, 0xC790] @ js '' '' @ [0xC9C1, 0xC811] @ js '' '' @
     [0xC785, 0xB825] @ js '' '' @ [0xC8FC, 0xC81C]"

definition outline_intro :: jsstring where
  "outline_intro =
     [0xC11C, 0xB860]"

definition outline_body1 :: jsstring where
  "outline_body1 =
     [0xBCF8, 0xB860] @ js '' 1''"

definition outline_body2 :: jsstring where
  "outline_body2 =
     [0xBCF8, 0xB860] @ js '' 2''"

definition outline_conclusion :: jsstring where
  "outline_conclusion =
     [0xACB0, 0xB860]"

definition new_point :: jsstring where
  "new_point =
     [0xC0C8] @ js '' '' @ [0xD56D, 0xBAA9]"

text \<open>
  White space as \<open>\s\<close> and \<open>trim\<close> see it: the white space and line terminator code
  units of the language.
\<close>

definition is_space :: "jschar \<Rightarrow> bool" where
  "is_space c \<longleftrightarrow>
     c = 0x09 \<or> c = 0x0A \<or> c = 0x0B \<or> c = 0x0C \<or> c = 0x0D \<or> c = 0x20 \<or> c = 0xA0 \<or>
     c = 0x1680 \<or> (0x2000 \<le> c \<and> c \<le> 0x200A) \<or> c = 0x2028 \<or> c = 0x2029 \<or>
     c = 0x202F \<or> c = 0x205F \<or> c = 0x3000 \<or> c = 0xFEFF"

definition trim :: "jsstring \<Rightarrow> jsstring" where
  "trim s = rev (dropWhile is_space (rev (dropWhile is_space s)))"

text \<open>
  The number of matches of \<open>/>\s*\[!quote\]/g\<close>: a match starts at a \<open>>\<close>, skips white
  space and reads the marker; the search goes on behind a match, and at the next unit
  otherwise.
\<close>

function countQuotes :: "jsstring \<Rightarrow> nat" where
  "countQuotes [] = 0"
| "countQuotes (c # cs) =
     (if c = ch CHR ''>'' \<and> take 8 (dropWhile is_space cs) = js ''[!quote]''
      then 1 + countQuotes (drop 8 (dropWhile is_space cs))
      else countQuotes cs)"
  by pat_completeness auto
termination
  by (relation "measure length")
     (auto simp: less_Suc_eq_le intro: le_trans [OF diff_le_self length_dropWhile_le])

definition countMaterials :: "jsstring option \<Rightarrow> nat" where
  "countMaterials content =
     (case content of
        None \<Rightarrow> 0
      | Some c \<Rightarrow> if c = [] then 0 else countQuotes c)"

definition getMaterialsContent :: "world \<Rightarrow> jsstring option" where
  "getMaterialsContent w =
     (case materialNotePath w of
        None \<Rightarrow> None
      | Some p \<Rightarrow>
          if p = [] then None
          else (case getAbstractFileByPath w p of
                  Some (TFile d parent) \<Rightarrow> Some d
                | _ \<Rightarrow> None))"

text \<open>
  What the modal's content element offers after a rendering: the buttons and inputs, each
  with the value its handler has captured (the topic object of an option, the index of an
  outline row, whether the Next button of step 1 is disabled).
\<close>

datatype control =
    RetryBtn | CloseBtn
  | TopicOption nat | CustomBtn | RefreshBtn | CancelBtn | TopicNextBtn bool
  | OutlineInput nat | DeleteBtn nat | AddBtn | OutlineBackBtn | OutlineNextBtn
  | PersonaOption Persona | LengthOption ArticleLength | CustomArea | StyleBackBtn | GenerateBtn

text \<open>
  The fields of \<open>GenerateArticleModal\<close>. Topic objects are shared between \<open>topics\<close>
  and \<open>selectedTopic\<close>, and step 2 writes into the selected one: the objects live in
  \<open>heap\<close>, and both fields hold addresses. \<open>controls\<close> and \<open>closed\<close> record what
  the host shows.
\<close>

record modal =
  step :: nat
  topics :: "nat list"
  selectedTopic :: "nat option"
  editedOutline :: "jsstring list"
  selectedPersona :: Persona
  selectedLength :: ArticleLength
  customInstructions :: jsstring
  isLoading :: bool
  loadingStatus :: jsstring
  lastError :: "jsstring option"
  materialsContent :: "jsstring option"
  materialCount :: nat
  heap :: "TopicSuggestion list"
  controls :: "control list"
  closed :: bool

definition initial :: modal where
  "initial = \<lparr>step = 1, topics = [], selectedTopic = None, editedOutline = [],
              selectedPersona = Essay, selectedLength = Medium, customInstructions = [],
              isLoading = False, loadingStatus = [], lastError = None,
              materialsContent = None, materialCount = 0, heap = [], controls = [],
              closed = False\<rparr>"

text \<open>A string or \<open>null\<close> used as a condition: \<open>null\<close> and the empty string are falsy.\<close>

definition truthy :: "jsstring option \<Rightarrow> bool" where
  "truthy v \<longleftrightarrow> (case v of None \<Rightarrow> False | Some s \<Rightarrow> s \<noteq> [])"

definition notice :: "jsstring \<Rightarrow> world \<Rightarrow> world" where
  "notice s w = w\<lparr>notices := notices w @ [s]\<rparr>"

definition close :: "modal \<Rightarrow> modal" where
  "close m = m\<lparr>closed := True, controls := []\<rparr>"

text \<open>
  The progress callback of the modal stores each text in \<open>loadingStatus\<close>: after a call
  that reported progress, the field holds the last text reported.
\<close>

definition reported :: "world \<Rightarrow> world \<Rightarrow> modal \<Rightarrow> modal" where
  "reported w w' m =
     (if length (progress w) < length (progress w') then m\<lparr>loadingStatus := last (progress w')\<rparr>
      else m)"

definition renderStep2Outline :: "modal \<Rightarrow> modal" where
  "renderStep2Outline m =
     (if selectedTopic m = None then m
      else m\<lparr>controls := controls m @
                concat (map (\<lambda>index. [OutlineInput index, DeleteBtn index])
                            [0..<length (editedOutline m)]) @
                [AddBtn, OutlineBackBtn, OutlineNextBtn]\<rparr>)"

definition renderStep3Style :: "modal \<Rightarrow> modal" where
  "renderStep3Style m =
     m\<lparr>controls := controls m @
          map PersonaOption [Essay, Blog, Newsletter, Storytelling, Academic, Twitter] @
          map LengthOption [Short, Medium, Long] @
          [CustomArea, StyleBackBtn, GenerateBtn]\<rparr>"

text \<open>The \<open>catch\<close> block of \<open>renderStep4Generate\<close>, before it renders.\<close>

definition generationFailed :: "error \<Rightarrow> modal \<Rightarrow> modal" where
  "generationFailed e m = m\<lparr>isLoading := False, lastError := Some (message e), step := 3\<rparr>"

text \<open>
  The \<open>options\<close> that \<open>renderStep4Generate\<close> builds; \<open>r\<close> is the address of the
  selected topic.
\<close>

definition generationOptions :: "modal \<Rightarrow> nat \<Rightarrow> GenerationOptions" where
  "generationOptions m r =
     \<lparr>opt_topic = heap m ! r, opt_persona = selectedPersona m, opt_length = selectedLength m,
      opt_customInstructions =
        (if customInstructions m = [] then None else Some (customInstructions m))\<rparr>"

text \<open>
  Rendering. The asynchronous methods are run to completion, one after the other; since
  \<open>render\<close> calls \<open>loadTopics\<close> again whenever step 1 has no topics, a synthesizer that
  keeps failing keeps the modal loading forever. \<open>render\<close> therefore takes fuel, one unit
  per nested rendering, and \<open>None\<close> means that the fuel did not suffice.
\<close>

fun render :: "nat \<Rightarrow> env \<Rightarrow> modal \<times> world \<Rightarrow> (modal \<times> world) option"
  and renderStep1Topics :: "nat \<Rightarrow> env \<Rightarrow> modal \<times> world \<Rightarrow> (modal \<times> world) option"
  and loadTopics :: "nat \<Rightarrow> env \<Rightarrow> modal \<times> world \<Rightarrow> (modal \<times> world) option"
  and renderStep4Generate :: "nat \<Rightarrow> env \<Rightarrow> modal \<times> world \<Rightarrow> (modal \<times> world) option"
where
  "render 0 env (m, w) = None"
| "render (Suc n) env (m, w) =
     (let m1 = m\<lparr>controls := (if truthy (lastError m) then [RetryBtn] else [])\<rparr>
      in if isLoading m1 then Some (m1, w)
         else if step m1 = 1 then renderStep1Topics n env (m1, w)
         else if step m1 = 2 then Some (renderStep2Outline m1, w)
         else if step m1 = 3 then Some (renderStep3Style m1, w)
         else if step m1 = 4 then renderStep4Generate n env (m1, w)
         else Some (m1, w))"
| "renderStep1Topics n env (m, w) =
     (if materialCount m < 1 then Some (m\<lparr>controls := controls m @ [CloseBtn]\<rparr>, w)
      else if topics m = [] then loadTopics n env (m, w)
      else Some (m\<lparr>controls := controls m @ map TopicOption (topics m) @
                     [CustomBtn, RefreshBtn, CancelBtn, TopicNextBtn (selectedTopic m = None)]\<rparr>,
                 w))"
| "loadTopics n env (m, w) =
     (case materialsContent m of
        None \<Rightarrow> Some (m, w)
      | Some content \<Rightarrow>
          if content = [] then Some (m, w)
          else
            (case render n env (m\<lparr>isLoading := True, loadingStatus := msg_analyzing\<rparr>, w) of
               None \<Rightarrow> None
             | Some (m1, w1) \<Rightarrow>
                 (case suggest env content (w1\<lparr>suggestCalls := suggestCalls w1 + 1\<rparr>) of
                    (Inr ts, w2) \<Rightarrow>
                      render n env
                        ((reported w1 w2 m1)
                           \<lparr>heap := heap m1 @ ts,
                            topics := [length (heap m1)..<length (heap m1) + length ts],
                            isLoading := False, lastError := None\<rparr>, w2)
                  | (Inl e, w2) \<Rightarrow>
                      render n env
                        ((reported w1 w2 m1)
                           \<lparr>isLoading := False, lastError := Some (message e)\<rparr>, w2))))"
| "renderStep4Generate n env (m, w) =
     (case (selectedTopic m, materialsContent m) of
        (Some r, Some content) \<Rightarrow>
          if content = [] then Some (m, w)
          else
            (case render n env (m\<lparr>isLoading := True, loadingStatus := msg_preparing\<rparr>, w) of
               None \<Rightarrow> None
             | Some (m1, w1) \<Rightarrow>
                 (case generateArticle env content (generationOptions m1 r) w1 of
                    (Inl e, w2) \<Rightarrow> render n env (generationFailed e (reported w1 w2 m1), w2)
                  | (Inr article, w2) \<Rightarrow>
                      (case createArticleNote env article (heap m1 ! r) w2 of
                         (None, w3) \<Rightarrow>
                           render n env
                             (generationFailed (Error msg_note_failed) (reported w1 w2 m1), w3)
                       | (Some file, w3) \<Rightarrow>
                           (case openFile env file of
                              Some e \<Rightarrow>
                                render n env
                                  (generationFailed e (reported w1 w2 m1), notice msg_created w3)
                            | None \<Rightarrow>
                                Some (close (reported w1 w2 m1),
                                      (notice msg_created w3)
                                        \<lparr>opened := opened w3 @ [file]\<rparr>)))))
      | _ \<Rightarrow> Some (m, w))"

definition onOpen :: "nat \<Rightarrow> env \<Rightarrow> world \<Rightarrow> (modal \<times> world) option" where
  "onOpen n env w =
     render n env
       (initial\<lparr>materialsContent := getMaterialsContent w,
                materialCount := countMaterials (getMaterialsContent w)\<rparr>, w)"

text \<open>
  What the user can do. An event reaches its handler only while the modal is open and the
  control is on display (and, for the Next button of step 1, not disabled); otherwise
  nothing happens.
\<close>

datatype event =
    Retry | Close
  | PickTopic nat | SubmitCustom jsstring | Refresh | Cancel | TopicNext
  | EditPoint nat jsstring | DeletePoint nat | AddPoint | OutlineBack | OutlineNext
  | PickPersona Persona | PickLength ArticleLength | EditInstructions jsstring | StyleBack
  | Generate

definition control_of :: "event \<Rightarrow> control" where
  "control_of ev =
     (case ev of
        Retry \<Rightarrow> RetryBtn
      | Close \<Rightarrow> CloseBtn
      | PickTopic r \<Rightarrow> TopicOption r
      | SubmitCustom t \<Rightarrow> CustomBtn
      | Refresh \<Rightarrow> RefreshBtn
      | Cancel \<Rightarrow> CancelBtn
      | TopicNext \<Rightarrow> TopicNextBtn False
      | EditPoint i v \<Rightarrow> OutlineInput i
      | DeletePoint i \<Rightarrow> DeleteBtn i
      | AddPoint \<Rightarrow> AddBtn
      | OutlineBack \<Rightarrow> OutlineBackBtn
      | OutlineNext \<Rightarrow> OutlineNextBtn
      | PickPersona p \<Rightarrow> PersonaOption p
      | PickLength l \<Rightarrow> LengthOption l
      | EditInstructions v \<Rightarrow> CustomArea
      | StyleBack \<Rightarrow> StyleBackBtn
      | Generate \<Rightarrow> GenerateBtn)"

text \<open>The default topic that the custom-topic button builds from a title.\<close>

definition customTopic :: "jsstring \<Rightarrow> TopicSuggestion" where
  "customTopic t =
     \<lparr>title = t, description = custom_description,
      outline = [outline_intro, outline_body1, outline_body2, outline_conclusion]\<rparr>"

text \<open>The handlers, named after the element that carries them in the source.\<close>

text \<open>
  The Retry button does not await \<open>render\<close>: it tests \<open>step\<close> and \<open>topics\<close> as they are
  when \<open>render\<close> has started (a load that \<open>render\<close> starts has not delivered yet), and
  at step 1 without topics it starts a load of its own besides the one of \<open>render\<close>. The
  two loads are run one after the other.
\<close>

definition retryBtn_onclick :: "nat \<Rightarrow> env \<Rightarrow> modal \<times> world \<Rightarrow> (modal \<times> world) option" where
  "retryBtn_onclick n env mw =
     (case render n env ((fst mw)\<lparr>lastError := None\<rparr>, snd mw) of
        None \<Rightarrow> None
      | Some (m1, w1) \<Rightarrow>
          if step (fst mw) = 1 \<and> topics (fst mw) = [] then loadTopics n env (m1, w1)
          else Some (m1, w1))"

definition option_onclick :: "nat \<Rightarrow> nat \<Rightarrow> env \<Rightarrow> modal \<times> world \<Rightarrow> (modal \<times> world) option" where
  "option_onclick r n env mw =
     render n env
       ((fst mw)\<lparr>selectedTopic := Some r, editedOutline := outline (heap (fst mw) ! r)\<rparr>, snd mw)"

definition customBtn_onclick ::
  "jsstring \<Rightarrow> nat \<Rightarrow> env \<Rightarrow> modal \<times> world \<Rightarrow> (modal \<times> world) option" where
  "customBtn_onclick input n env mw =
     (if trim input \<noteq> [] then
        render n env
          ((fst mw)\<lparr>heap := heap (fst mw) @ [customTopic (trim input)],
                    selectedTopic := Some (length (heap (fst mw))),
                    editedOutline := outline (customTopic (trim input)),
                    step := 2\<rparr>, snd mw)
      else Some (fst mw, notice msg_enter_topic (snd mw)))"

definition refreshBtn_onclick :: "nat \<Rightarrow> env \<Rightarrow> modal \<times> world \<Rightarrow> (modal \<times> world) option" where
  "refreshBtn_onclick n env mw =
     render n env ((fst mw)\<lparr>topics := [], selectedTopic := None\<rparr>, snd mw)"

definition topicNextBtn_onclick :: "nat \<Rightarrow> env \<Rightarrow> modal \<times> world \<Rightarrow> (modal \<times> world) option" where
  "topicNextBtn_onclick n env mw =
     (if selectedTopic (fst mw) \<noteq> None then render n env ((fst mw)\<lparr>step := 2\<rparr>, snd mw)
      else Some mw)"

definition input_oninput :: "nat \<Rightarrow> jsstring \<Rightarrow> modal \<Rightarrow> modal" where
  "input_oninput index v m = m\<lparr>editedOutline := (editedOutline m)[index := v]\<rparr>"

text \<open>\<open>splice(index, 1)\<close> on an index within the array.\<close>

definition splice1 :: "nat \<Rightarrow> 'a list \<Rightarrow> 'a list" where
  "splice1 index xs = take index xs @ drop (Suc index) xs"

definition deleteBtn_onclick :: "nat \<Rightarrow> nat \<Rightarrow> env \<Rightarrow> modal \<times> world \<Rightarrow> (modal \<times> world) option" where
  "deleteBtn_onclick index n env mw =
     (if 2 < length (editedOutline (fst mw)) then
        render n env ((fst mw)\<lparr>editedOutline := splice1 index (editedOutline (fst mw))\<rparr>, snd mw)
      else Some (fst mw, notice msg_min_two (snd mw)))"

definition addBtn_onclick :: "nat \<Rightarrow> env \<Rightarrow> modal \<times> world \<Rightarrow> (modal \<times> world) option" where
  "addBtn_onclick n env mw =
     render n env ((fst mw)\<lparr>editedOutline := editedOutline (fst mw) @ [new_point]\<rparr>, snd mw)"

definition outlineBackBtn_onclick :: "nat \<Rightarrow> env \<Rightarrow> modal \<times> world \<Rightarrow> (modal \<times> world) option" where
  "outlineBackBtn_onclick n env mw = render n env ((fst mw)\<lparr>step := 1\<rparr>, snd mw)"

definition outlineNextBtn_onclick :: "nat \<Rightarrow> env \<Rightarrow> modal \<times> world \<Rightarrow> (modal \<times> world) option" where
  "outlineNextBtn_onclick n env mw =
     (case selectedTopic (fst mw) of
        None \<Rightarrow> Some mw
      | Some r \<Rightarrow>
          render n env
            ((fst mw)\<lparr>heap := (heap (fst mw))
                               [r := (heap (fst mw) ! r)\<lparr>outline := editedOutline (fst mw)\<rparr>],
                      step := 3\<rparr>, snd mw))"

definition styleBackBtn_onclick :: "nat \<Rightarrow> env \<Rightarrow> modal \<times> world \<Rightarrow> (modal \<times> world) option" where
  "styleBackBtn_onclick n env mw = render n env ((fst mw)\<lparr>step := 2\<rparr>, snd mw)"

definition generateBtn_onclick :: "nat \<Rightarrow> env \<Rightarrow> modal \<times> world \<Rightarrow> (modal \<times> world) option" where
  "generateBtn_onclick n env mw = render n env ((fst mw)\<lparr>step := 4\<rparr>, snd mw)"

definition handle :: "nat \<Rightarrow> env \<Rightarrow> event \<Rightarrow> modal \<times> world \<Rightarrow> (modal \<times> world) option" where
  "handle n env ev mw =
     (case ev of
        Retry \<Rightarrow> retryBtn_onclick n env mw
      | Close \<Rightarrow> Some (close (fst mw), snd mw)
      | PickTopic r \<Rightarrow> option_onclick r n env mw
      | SubmitCustom input \<Rightarrow> customBtn_onclick input n env mw
      | Refresh \<Rightarrow> refreshBtn_onclick n env mw
      | Cancel \<Rightarrow> Some (close (fst mw), snd mw)
      | TopicNext \<Rightarrow> topicNextBtn_onclick n env mw
      | EditPoint i v \<Rightarrow> Some (input_oninput i v (fst mw), snd mw)
      | DeletePoint i \<Rightarrow> deleteBtn_onclick i n env mw
      | AddPoint \<Rightarrow> addBtn_onclick n env mw
      | OutlineBack \<Rightarrow> outlineBackBtn_onclick n env mw
      | OutlineNext \<Rightarrow> outlineNextBtn_onclick n env mw
      | PickPersona p \<Rightarrow> render n env ((fst mw)\<lparr>selectedPersona := p\<rparr>, snd mw)
      | PickLength l \<Rightarrow> render n env ((fst mw)\<lparr>selectedLength := l\<rparr>, snd mw)
      | EditInstructions v \<Rightarrow> Some ((fst mw)\<lparr>customInstructions := v\<rparr>, snd mw)
      | StyleBack \<Rightarrow> styleBackBtn_onclick n env mw
      | Generate \<Rightarrow> generateBtn_onclick n env mw)"

definition fire :: "nat \<Rightarrow> env \<Rightarrow> event \<Rightarrow> modal \<times> world \<Rightarrow> (modal \<times> world) option" where
  "fire n env ev mw =
     (if \<not> closed (fst mw) \<and> control_of ev \<in> set (controls (fst mw)) then handle n env ev mw
      else Some mw)"

text \<open>A session: the modal is opened, and the user's events are handled in turn.\<close>

fun run :: "nat \<Rightarrow> env \<Rightarrow> event list \<Rightarrow> modal \<times> world \<Rightarrow> (modal \<times> world) option" where
  "run n env [] mw = Some mw"
| "run n env (ev # evs) mw =
     (case fire n env ev mw of None \<Rightarrow> None | Some mw' \<Rightarrow> run n env evs mw')"

definition session :: "nat \<Rightarrow> env \<Rightarrow> world \<Rightarrow> event list \<Rightarrow> (modal \<times> world) option" where
  "session n env w evs =
     (case onOpen n env w of None \<Rightarrow> None | Some mw \<Rightarrow> run n env evs mw)"

text \<open>
  Two notions for stating properties: the part of the world that the AI calls leave alone,
  and the error banner that every rendering starts with.
\<close>

definition same_host :: "world \<Rightarrow> world \<Rightarrow> bool" where
  "same_host w w' \<longleftrightarrow>
     materialNotePath w' = materialNotePath w \<and> vault w' = vault w \<and> creates w' = creates w \<and>
     notices w' = notices w \<and> opened w' = opened w \<and> suggestCalls w' = suggestCalls w"

definition banner :: "modal \<Rightarrow> control list" where
  "banner m = (if truthy (lastError m) then [RetryBtn] else [])"

text \<open>
  The invariant of a session, for a bound \<open>k\<close> on the length of outlines: the addresses
  held are allocated, every topic object and, once a topic has been selected, the edited
  outline have at least \<open>k\<close> entries, the step is between 1 and 4, and past step 1 a
  topic is selected. \<open>shown\<close> ties the controls on display to the state they were
  rendered from: a topic option belongs to \<open>topics\<close>, the buttons that change the step
  stand at their step, and the Next button of step 1 is disabled exactly when no topic is
  selected.
\<close>

definition consistent :: "nat \<Rightarrow> modal \<Rightarrow> bool" where
  "consistent k m \<longleftrightarrow>
     (\<forall>r\<in>set (topics m). r < length (heap m)) \<and>
     (\<forall>r. selectedTopic m = Some r \<longrightarrow> r < length (heap m)) \<and>
     (\<forall>t\<in>set (heap m). k \<le> length (outline t)) \<and>
     (selectedTopic m \<noteq> None \<longrightarrow> k \<le> length (editedOutline m)) \<and>
     (step m \<noteq> 1 \<longrightarrow> selectedTopic m \<noteq> None) \<and>
     1 \<le> step m \<and> step m \<le> 4"

definition shown :: "modal \<Rightarrow> bool" where
  "shown m \<longleftrightarrow>
     (\<forall>r. TopicOption r \<in> set (controls m) \<longrightarrow> r \<in> set (topics m)) \<and>
     (RefreshBtn \<in> set (controls m) \<longrightarrow> step m = 1) \<and>
     (StyleBackBtn \<in> set (controls m) \<longrightarrow> step m = 3) \<and>
     (GenerateBtn \<in> set (controls m) \<longrightarrow> step m = 3) \<and>
     (\<forall>d. TopicNextBtn d \<in> set (controls m) \<longrightarrow> d = (selectedTopic m = None))"



section \<open>Sample environments\<close>

text \<open>
  A vault with a materials note, and stubs for the network: one that fails twice (a server
  error, then a timeout) before it answers, one that always signals a rate limit, and a
  configuration without credential.
\<close>

definition w0 :: world where
  "w0 = \<lparr>calls = 0, sent = [], sleeps = [], progress = [],
          materialNotePath = Some (js ''Notes/Reading - Materials.md''),
          vault = [(js ''Notes/Reading - Materials.md'',
                    TFile (js ''> [!quote] [[Reading]]'') (Some (js ''Notes'')))],
          creates = [], notices = [], opened = [], suggestCalls = 0\<rparr>"

definition settings0 :: settings where
  "settings0 = \<lparr>aiProvider = OpenAI, openaiApiKey = js ''sk'', anthropicApiKey = [],
                 geminiApiKey = [], openaiModel = js ''gpt-4o'', anthropicModel = [],
                 geminiModel = [], outputLanguage = []\<rparr>"

definition ok_response :: "jsstring \<Rightarrow> response" where
  "ok_response s = \<lparr>status = 200, text_of = [], json_content = Some s, finishReason = None\<rparr>"

definition error_response :: "nat \<Rightarrow> response" where
  "error_response st = \<lparr>status = st, text_of = [], json_content = None, finishReason = None\<rparr>"

definition env0 :: env where
  "env0 = \<lparr>settings_of = settings0,
            net = (\<lambda>k r. if k = 0 then Responded (error_response 500)
                        else if k = 1 then TimedOut
                        else Responded (ok_response (js ''ok''))),
            suggest = (\<lambda>c w. (Inr [], w)),
            nowISO = js ''2025-01-31T09:30:00.000Z'',
            createFails = (\<lambda>p. False),
            parentOf = (\<lambda>p. None),
            openFile = (\<lambda>p. None)\<rparr>"

definition env_rate_limited :: env where
  "env_rate_limited = env0\<lparr>net := (\<lambda>k r. Responded (error_response 429))\<rparr>"

definition env_no_key :: env where
  "env_no_key = env0\<lparr>settings_of := settings0\<lparr>openaiApiKey := []\<rparr>\<rparr>"

definition req0 :: request where
  "req0 = \<lparr>req_provider = OpenAI, req_key = js ''sk'', req_model = js ''gpt-4o'',
           req_prompt = js ''p''\<rparr>"

text \<open>
  A provider answer of the shape the topic prompt asks for, with one topic, and the part of
  it that \<open>jsonMatch\<close> finds.
\<close>

definition nestedResponse :: jsstring where
  "nestedResponse =
     js ''[{'' @ [0x0022] @ js ''title'' @ [0x0022] @ js '':'' @ [0x0022] @ js ''T'' @
     [0x0022] @ js '','' @ [0x0022] @ js ''description'' @ [0x0022] @ js '':'' @
     [0x0022] @ js ''D'' @ [0x0022] @ js '','' @ [0x0022] @ js ''outline'' @ [0x0022] @
     js '':['' @ [0x0022] @ js ''a'' @ [0x0022] @ js '','' @ [0x0022] @ js ''b'' @
     [0x0022] @ js '']}]''"

definition nestedMatch :: jsstring where
  "nestedMatch =
     js ''[{'' @ [0x0022] @ js ''title'' @ [0x0022] @ js '':'' @ [0x0022] @ js ''T'' @
     [0x0022] @ js '','' @ [0x0022] @ js ''description'' @ [0x0022] @ js '':'' @
     [0x0022] @ js ''D'' @ [0x0022] @ js '','' @ [0x0022] @ js ''outline'' @ [0x0022] @
     js '':['' @ [0x0022] @ js ''a'' @ [0x0022] @ js '','' @ [0x0022] @ js ''b'' @
     [0x0022] @ js '']''"

definition env_nested :: env where
  "env_nested = env0\<lparr>net := (\<lambda>k r. Responded (ok_response nestedResponse))\<rparr>"

text \<open>A vault in which the first two file names for the title \<open>A/B\<close> are taken.\<close>

definition w_taken :: world where
  "w_taken = w0\<lparr>vault := vault w0 @ [(js ''Notes/A-B.md'', TFile [] (Some (js ''Notes''))),
                                      (js ''Notes/A-B 1.md'', TFolder)]\<rparr>"

definition topic_AB :: TopicSuggestion where
  "topic_AB = \<lparr>title = js ''A/B'', description = js ''d'', outline = [js ''x'', js ''y'']\<rparr>"

text \<open>
  A modal that has reached step 4 with the topic \<open>A/B\<close> selected, and stubs for the
  network: one that always answers with a server error, and one whose answer is the text
  \<open>ARTICLE:A/B\<close>. In \<open>w_plain\<close> the materials note holds no quote.
\<close>

definition m_ready :: modal where
  "m_ready = initial\<lparr>step := 4, topics := [0], selectedTopic := Some 0,
                      editedOutline := [js ''x'', js ''y''],
                      materialsContent := Some (js ''> [!quote] [[Reading]]''),
                      materialCount := 1, heap := [topic_AB]\<rparr>"

definition env_server_error :: env where
  "env_server_error = env0\<lparr>net := (\<lambda>k r. Responded (error_response 500))\<rparr>"

definition env_echo :: env where
  "env_echo = env0\<lparr>net := (\<lambda>k r. Responded (ok_response (js ''ARTICLE:A/B'')))\<rparr>"

definition w_plain :: world where
  "w_plain = w0\<lparr>vault := [(js ''Notes/Reading - Materials.md'',
                             TFile (js ''no quotes yet'') (Some (js ''Notes'')))]\<rparr>"

text \<open>
  Synthesizer stubs: one delivers two topics with two outline entries each, the other a
  single topic whose outline has one entry.
\<close>

definition topic_two :: TopicSuggestion where
  "topic_two = \<lparr>title = js ''First'', description = js ''d'', outline = [js ''a'', js ''b'']\<rparr>"


definition env_topics :: env where
  "env_topics = env0\<lparr>suggest := (\<lambda>c w. (Inr [topic_two, topic_AB], w))\<rparr>"


text \<open>A modal at step 1 whose load of topics has failed: the banner with Retry is on display.\<close>

definition m_failed :: modal where
  "m_failed = initial\<lparr>materialsContent := Some (js ''> [!quote] [[Reading]]''), materialCount := 1,
                      lastError := Some (js ''failed''), controls := [RetryBtn]\<rparr>"

section \<open>Properties of the retry wrapper\<close>

lemma callProvider_frame:
  assumes "callProvider env prompt w = (r, w')"
  shows "calls w' = calls w + 1 \<and> sleeps w' = sleeps w \<and> progress w' = progress w"
  using assms
  by (auto simp: callProvider_def callGeminiWithTimeout_def callOpenAIWithTimeout_def
        callAnthropicWithTimeout_def requestUrl_def Let_def
      split: if_splits sum.splits option.splits prod.splits)

lemmas retry_consts = MAX_RETRIES_def RETRY_DELAY_def

lemma callAI_from_ok:
  assumes "attempt \<le> 3"
    and "callProvider env prompt (onProgress (msg_calling attempt 3) w) = (Inr r, w')"
  shows "callAI_from env prompt attempt prev w = (Inr r, w')"
  using assms by (subst callAI_from.simps) (simp add: retry_consts)

lemma callAI_from_1_fail:
  assumes "callProvider env prompt (onProgress (msg_calling 1 3) w) = (Inl e, w')"
  shows "callAI_from env prompt 1 prev w =
         callAI_from env prompt 2 (Some e) (sleep 1000 (onProgress (msg_waiting 1) w'))"
  using assms by (subst callAI_from.simps) (simp add: retry_consts Let_def numeral_2_eq_2)

lemma callAI_from_2_fail:
  assumes "callProvider env prompt (onProgress (msg_calling 2 3) w) = (Inl e, w')"
  shows "callAI_from env prompt 2 prev w =
         callAI_from env prompt 3 (Some e) (sleep 2000 (onProgress (msg_waiting 2) w'))"
  using assms by (subst callAI_from.simps) (simp add: retry_consts Let_def)

lemma callAI_from_done:
  assumes "3 < attempt"
  shows "callAI_from env prompt attempt prev w =
         (Inl (Error (msg_exhausted 3 @
           (case prev of None \<Rightarrow> msg_unknown
            | Some e \<Rightarrow> if message e = [] then msg_unknown else message e))), w)"
  using assms by (subst callAI_from.simps) (simp add: retry_consts)

lemma callAI_from_3_fail:
  assumes "callProvider env prompt (onProgress (msg_calling 3 3) w) = (Inl e, w')"
  shows "callAI_from env prompt 3 prev w =
         (Inl (Error (msg_exhausted 3 @ (if message e = [] then msg_unknown else message e))), w')"
  using assms
  by (subst callAI_from.simps) (simp add: retry_consts callAI_from_done)

lemma callAI_all_fail:
  assumes a1: "callProvider env prompt (onProgress (msg_calling 1 3) w) = (Inl e1, w1)"
    and a2: "callProvider env prompt
               (onProgress (msg_calling 2 3) (sleep 1000 (onProgress (msg_waiting 1) w1))) = (Inl e2, w2)"
    and a3: "callProvider env prompt
               (onProgress (msg_calling 3 3) (sleep 2000 (onProgress (msg_waiting 2) w2))) = (Inl e3, w3)"
  shows "callAI env prompt w =
           (Inl (Error (msg_exhausted 3 @ (if message e3 = [] then msg_unknown else message e3))), w3)"
proof -
  have "callAI env prompt w =
        callAI_from env prompt 2 (Some e1) (sleep 1000 (onProgress (msg_waiting 1) w1))"
    unfolding callAI_def by (rule callAI_from_1_fail [OF a1])
  also have "\<dots> = callAI_from env prompt 3 (Some e2) (sleep 2000 (onProgress (msg_waiting 2) w2))"
    by (rule callAI_from_2_fail [OF a2])
  also have "\<dots> = (Inl (Error (msg_exhausted 3 @
                       (if message e3 = [] then msg_unknown else message e3))), w3)"
    by (rule callAI_from_3_fail [OF a3])
  finally show ?thesis .
qed

lemma callAI_retried_twice:
  assumes a1: "callProvider env prompt (onProgress (msg_calling 1 3) w) = (Inl e1, w1)"
    and a2: "callProvider env prompt
               (onProgress (msg_calling 2 3) (sleep 1000 (onProgress (msg_waiting 1) w1))) =
             (Inl e2, w2)"
  shows "callAI env prompt w =
         callAI_from env prompt 3 (Some e2) (sleep 2000 (onProgress (msg_waiting 2) w2))"
proof -
  have "callAI env prompt w =
        callAI_from env prompt 2 (Some e1) (sleep 1000 (onProgress (msg_waiting 1) w1))"
    unfolding callAI_def by (rule callAI_from_1_fail [OF a1])
  also have "\<dots> = callAI_from env prompt 3 (Some e2) (sleep 2000 (onProgress (msg_waiting 2) w2))"
    by (rule callAI_from_2_fail [OF a2])
  finally show ?thesis .
qed

lemmas client_defs = callProvider_def callOpenAIWithTimeout_def requestUrl_def
  onProgress_def sleep_def withTimeout_def API_TIMEOUT_def

lemmas sample_defs = env0_def settings0_def w0_def req0_def ok_response_def error_response_def
  env_rate_limited_def env_no_key_def

lemma msg_key_missing_nonempty: "msg_key_missing p \<noteq> []"
  by (cases p) (simp_all add: msg_key_missing_def providerName_def js_def)

lemma msg_rate_limit_nonempty: "msg_rate_limit p \<noteq> []"
  by (cases p) (simp_all add: msg_rate_limit_def providerName_def js_def)

lemma callProvider_no_key:
  "callProvider env_no_key prompt w =
     (Inl (Error (msg_key_missing OpenAI)), w\<lparr>calls := calls w + 1\<rparr>)"
  by (simp add: client_defs sample_defs)

lemma callProvider_rate_limited:
  "callProvider env_rate_limited prompt w =
     (Inl (Error (msg_rate_limit OpenAI)),
      w\<lparr>calls := calls w + 1,
        sent := sent w @ [\<lparr>req_provider = OpenAI, req_key = js ''sk'', req_model = js ''gpt-4o'',
                           req_prompt = prompt\<rparr>]\<rparr>)"
  by (simp add: client_defs sample_defs js_def)

text \<open>
  C2. When the provider client fails on attempts 1 and 2 and succeeds on attempt 3,
  \<open>callAI\<close> makes exactly three provider calls, waits exactly twice, 1000 ms and then
  2000 ms (\<open>RETRY_DELAY * 2 ^ (attempt - 1)\<close>), and returns the result of attempt 3.
\<close>

theorem callAI_retry_law:
  assumes a1: "callProvider env prompt (onProgress (msg_calling 1 3) w) = (Inl e1, w1)"
    and a2: "callProvider env prompt
               (onProgress (msg_calling 2 3) (sleep 1000 (onProgress (msg_waiting 1) w1))) =
             (Inl e2, w2)"
    and a3: "callProvider env prompt
               (onProgress (msg_calling 3 3) (sleep 2000 (onProgress (msg_waiting 2) w2))) =
             (Inr r, w3)"
  shows "callAI env prompt w = (Inr r, w3) \<and> calls w3 = calls w + 3 \<and>
         sleeps w3 = sleeps w @ [RETRY_DELAY * 2 ^ (1 - 1), RETRY_DELAY * 2 ^ (2 - 1)] \<and>
         sleeps w3 = sleeps w @ [1000, 2000]"
proof -
  have "callAI env prompt w =
        callAI_from env prompt 3 (Some e2) (sleep 2000 (onProgress (msg_waiting 2) w2))"
    by (rule callAI_retried_twice [OF a1 a2])
  also have "\<dots> = (Inr r, w3)"
    by (rule callAI_from_ok [OF _ a3]) simp
  finally have res: "callAI env prompt w = (Inr r, w3)" .
  from callProvider_frame [OF a1] callProvider_frame [OF a2] callProvider_frame [OF a3]
  have "calls w3 = calls w + 3" and "sleeps w3 = sleeps w @ [1000, 2000]"
    by (simp_all add: onProgress_def sleep_def)
  with res show ?thesis by (simp add: RETRY_DELAY_def)
qed

theorem callAI_retry_law_witness:
  "callAI env0 (js ''p'') w0 =
     (Inr (js ''ok''),
      w0\<lparr>calls := 3, sent := [req0, req0, req0], sleeps := [1000, 2000],
         progress := [msg_calling 1 3, msg_waiting 1, msg_calling 2 3, msg_waiting 2,
                      msg_calling 3 3]\<rparr>)"
proof -
  let ?w1 = "w0\<lparr>calls := 1, sent := [req0], progress := [msg_calling 1 3]\<rparr>"
  let ?w2 = "w0\<lparr>calls := 2, sent := [req0, req0], sleeps := [1000],
                progress := [msg_calling 1 3, msg_waiting 1, msg_calling 2 3]\<rparr>"
  let ?w3 = "w0\<lparr>calls := 3, sent := [req0, req0, req0], sleeps := [1000, 2000],
                progress := [msg_calling 1 3, msg_waiting 1, msg_calling 2 3, msg_waiting 2,
                             msg_calling 3 3]\<rparr>"
  have f1: "callProvider env0 (js ''p'') (onProgress (msg_calling 1 3) w0) =
            (Inl (Error (msg_api_error OpenAI 500 [])), ?w1)"
    by (simp add: client_defs sample_defs js_def)
  have f2: "callProvider env0 (js ''p'')
              (onProgress (msg_calling 2 3) (sleep 1000 (onProgress (msg_waiting 1) ?w1))) =
            (Inl (Error (msg_timeout 60)), ?w2)"
    by (simp add: client_defs sample_defs js_def)
  have f3: "callProvider env0 (js ''p'')
              (onProgress (msg_calling 3 3) (sleep 2000 (onProgress (msg_waiting 2) ?w2))) =
            (Inr (js ''ok''), ?w3)"
    by (simp add: client_defs sample_defs js_def)
  from callAI_retry_law [OF f1 f2 f3] show ?thesis by simp
qed

text \<open>
  C4. When all three attempts fail, \<open>callAI\<close> raises one error: its message is the fixed
  prefix ("AI call failed (3 attempts): ") followed by the message of the error of
  attempt 3 (by the text "unknown error" when that message is empty). Three provider calls
  and the two waits have been made by then.
\<close>

theorem callAI_exhausted:
  assumes a1: "callProvider env prompt (onProgress (msg_calling 1 3) w) = (Inl e1, w1)"
    and a2: "callProvider env prompt
               (onProgress (msg_calling 2 3) (sleep 1000 (onProgress (msg_waiting 1) w1))) =
             (Inl e2, w2)"
    and a3: "callProvider env prompt
               (onProgress (msg_calling 3 3) (sleep 2000 (onProgress (msg_waiting 2) w2))) =
             (Inl e3, w3)"
  shows "callAI env prompt w =
           (Inl (Error (msg_exhausted 3 @
                        (if message e3 = [] then msg_unknown else message e3))), w3) \<and>
         calls w3 = calls w + 3 \<and> sleeps w3 = sleeps w @ [1000, 2000]"
proof -
  note res = callAI_all_fail [OF a1 a2 a3]
  from callProvider_frame [OF a1] callProvider_frame [OF a2] callProvider_frame [OF a3]
  have "calls w3 = calls w + 3" and "sleeps w3 = sleeps w @ [1000, 2000]"
    by (simp_all add: onProgress_def sleep_def)
  with res show ?thesis by simp
qed

theorem callAI_exhausted_witness:
  "callAI env_rate_limited (js ''p'') w0 =
     (Inl (Error (msg_exhausted 3 @ msg_rate_limit OpenAI)),
      w0\<lparr>calls := 3, sent := [req0, req0, req0], sleeps := [1000, 2000],
         progress := [msg_calling 1 3, msg_waiting 1, msg_calling 2 3, msg_waiting 2,
                      msg_calling 3 3]\<rparr>)"
  using callAI_exhausted [OF callProvider_rate_limited callProvider_rate_limited
      callProvider_rate_limited, of "js ''p''" w0]
  by (simp add: msg_rate_limit_nonempty onProgress_def sleep_def w0_def req0_def)

text \<open>
  C1, as the code has it. \<open>callAI\<close> does not tell errors apart: when the first attempt
  fails, be it for a missing or rejected credential or a blocked answer, the wrapper waits
  1000 ms and calls the provider again. An error reaches the caller only after attempts 2
  and 3 have failed as well, that is after three provider calls and both waits, and it is
  the aggregated error, whose message is the fixed prefix followed by the message of the
  error of attempt 3; the error of the first attempt is never passed on as it is.
\<close>

theorem callAI_first_failure_is_retried:
  assumes a1: "callProvider env prompt (onProgress (msg_calling 1 3) w) = (Inl e, w1)"
    and res: "callAI env prompt w = (res, w')"
  shows "calls w + 2 \<le> calls w' \<and>
         take (Suc (length (sleeps w))) (sleeps w') = sleeps w @ [1000] \<and>
         (\<forall>err. res = Inl err \<longrightarrow>
            calls w' = calls w + 3 \<and> sleeps w' = sleeps w @ [1000, 2000] \<and>
            (\<exists>e2 w2 e3.
               callProvider env prompt
                 (onProgress (msg_calling 2 3) (sleep 1000 (onProgress (msg_waiting 1) w1))) =
               (Inl e2, w2) \<and>
               callProvider env prompt
                 (onProgress (msg_calling 3 3) (sleep 2000 (onProgress (msg_waiting 2) w2))) =
               (Inl e3, w') \<and>
               err = Error (msg_exhausted 3 @
                            (if message e3 = [] then msg_unknown else message e3))))"
proof -
  let ?v2 = "onProgress (msg_calling 2 3) (sleep 1000 (onProgress (msg_waiting 1) w1))"
  obtain r2 w2 where a2: "callProvider env prompt ?v2 = (r2, w2)"
    by (cases "callProvider env prompt ?v2")
  have step1: "callAI env prompt w =
        callAI_from env prompt 2 (Some e) (sleep 1000 (onProgress (msg_waiting 1) w1))"
    unfolding callAI_def by (rule callAI_from_1_fail [OF a1])
  note f1 = callProvider_frame [OF a1] and f2 = callProvider_frame [OF a2]
  show ?thesis
  proof (cases r2)
    case (Inr r)
    with a2 step1 res have "res = Inr r" and "w' = w2"
      using callAI_from_ok [of 2 env prompt _ r w2 "Some e"] by simp_all
    with f1 f2 show ?thesis by (simp add: onProgress_def sleep_def)
  next
    case (Inl e2)
    with a2 have a2': "callProvider env prompt ?v2 = (Inl e2, w2)" by simp
    let ?v3 = "onProgress (msg_calling 3 3) (sleep 2000 (onProgress (msg_waiting 2) w2))"
    obtain r3 w3 where a3: "callProvider env prompt ?v3 = (r3, w3)"
      by (cases "callProvider env prompt ?v3")
    note f3 = callProvider_frame [OF a3]
    have step2: "callAI env prompt w = callAI_from env prompt 3 (Some e2)
        (sleep 2000 (onProgress (msg_waiting 2) w2))"
      by (rule callAI_retried_twice [OF a1 a2'])
    show ?thesis
    proof (cases r3)
      case (Inr r)
      with a3 step2 res have "res = Inr r" and "w' = w3"
        using callAI_from_ok [of 3 env prompt _ r w3 "Some e2"] by simp_all
      with f1 f2 f3 show ?thesis by (simp add: onProgress_def sleep_def)
    next
      case (Inl e3)
      with a3 have a3': "callProvider env prompt ?v3 = (Inl e3, w3)" by simp
      from callAI_all_fail [OF a1 a2' a3'] res
      have r: "res = Inl (Error (msg_exhausted 3 @
                 (if message e3 = [] then msg_unknown else message e3)))" and w: "w' = w3"
        by simp_all
      from f1 f2 f3 w have counts: "calls w + 2 \<le> calls w'"
        "take (Suc (length (sleeps w))) (sleeps w') = sleeps w @ [1000]"
        "calls w' = calls w + 3" "sleeps w' = sleeps w @ [1000, 2000]"
        by (simp_all add: onProgress_def sleep_def)
      have "\<exists>e2 w2 e3'.
               callProvider env prompt ?v2 = (Inl e2, w2) \<and>
               callProvider env prompt
                 (onProgress (msg_calling 3 3) (sleep 2000 (onProgress (msg_waiting 2) w2))) =
               (Inl e3', w') \<and>
               Error (msg_exhausted 3 @ (if message e3 = [] then msg_unknown else message e3)) =
               Error (msg_exhausted 3 @ (if message e3' = [] then msg_unknown else message e3'))"
        using a2' a3' w by blast
      with counts r show ?thesis by simp
    qed
  qed
qed

theorem callAI_first_failure_is_retried_witness:
  "callProvider env_no_key (js ''p'') (onProgress (msg_calling 1 3) w0) =
     (Inl (Error (msg_key_missing OpenAI)), (onProgress (msg_calling 1 3) w0)\<lparr>calls := 1\<rparr>) \<and>
   (\<exists>w'. callAI env_no_key (js ''p'') w0 =
            (Inl (Error (msg_exhausted 3 @ msg_key_missing OpenAI)), w') \<and>
         calls w' = 3 \<and> sleeps w' = [1000, 2000])"
proof -
  let ?w' = "w0\<lparr>calls := 3, sleeps := [1000, 2000],
       progress := [msg_calling 1 3, msg_waiting 1, msg_calling 2 3, msg_waiting 2,
                    msg_calling 3 3]\<rparr>"
  have r: "callAI env_no_key (js ''p'') w0 =
           (Inl (Error (msg_exhausted 3 @ msg_key_missing OpenAI)), ?w')"
    by (simp add: callAI_all_fail [OF callProvider_no_key callProvider_no_key callProvider_no_key]
          msg_key_missing_nonempty onProgress_def sleep_def w0_def)
  have c: "callProvider env_no_key (js ''p'') (onProgress (msg_calling 1 3) w0) =
     (Inl (Error (msg_key_missing OpenAI)), (onProgress (msg_calling 1 3) w0)\<lparr>calls := 1\<rparr>)"
    by (simp add: callProvider_no_key onProgress_def w0_def)
  from callAI_first_failure_is_retried [OF c r]
  have "calls ?w' = calls w0 + 3 \<and> sleeps ?w' = sleeps w0 @ [1000, 2000]" by blast
  then have "calls ?w' = 3 \<and> sleeps ?w' = [1000, 2000]" by (simp add: w0_def)
  with r c show ?thesis by blast
qed

text \<open>
  C1 fails as stated: without a credential the first attempt fails with the
  missing-credential error, and \<open>callAI\<close> still makes three provider calls and waits
  1000 ms and 2000 ms before the caller sees the aggregated error.
\<close>

theorem callAI_auth_error_counterexample:
  "fst (callProvider env_no_key (js ''p'') (onProgress (msg_calling 1 3) w0)) =
     Inl (Error (msg_key_missing OpenAI)) \<and>
   callAI env_no_key (js ''p'') w0 =
     (Inl (Error (msg_exhausted 3 @ msg_key_missing OpenAI)),
      w0\<lparr>calls := 3, sleeps := [1000, 2000],
         progress := [msg_calling 1 3, msg_waiting 1, msg_calling 2 3, msg_waiting 2,
                      msg_calling 3 3]\<rparr>)"
  by (simp add: callAI_all_fail [OF callProvider_no_key callProvider_no_key callProvider_no_key]
        callProvider_no_key msg_key_missing_nonempty onProgress_def sleep_def w0_def)

section \<open>Properties of the topic synthesizer\<close>

lemmas json_defs = JSON_parse_def is_json_ws_def is_digit_def lex_number_def lex_fraction_def
  lex_exponent_def pstep_def start_value_def hex4_def hex_value_def simple_escape_def

lemma jsonMatch_nested: "jsonMatch nestedResponse = Some nestedMatch"
  by (simp add: jsonMatch_def nestedResponse_def nestedMatch_def js_def)

lemma parse_nestedMatch: "JSON_parse nestedMatch = None"
  by (simp add: nestedMatch_def js_def json_defs)

lemma parse_nestedResponse:
  "JSON_parse nestedResponse =
     Some (JArray [JObject [(js ''title'', JString (js ''T'')),
                            (js ''description'', JString (js ''D'')),
                            (js ''outline'', JArray [JString (js ''a''), JString (js ''b'')])]])"
  by (simp add: nestedResponse_def js_def json_defs)

lemma nestedResponse_nonempty: "nestedResponse \<noteq> []"
  by (simp add: nestedResponse_def js_def)

lemma callProvider_nested:
  "callProvider env_nested prompt w =
     (Inr nestedResponse,
      w\<lparr>calls := calls w + 1,
        sent := sent w @ [\<lparr>req_provider = OpenAI, req_key = js ''sk'', req_model = js ''gpt-4o'',
                           req_prompt = prompt\<rparr>]\<rparr>)"
  by (simp add: client_defs sample_defs env_nested_def nestedResponse_nonempty js_def)

lemma tryParseTopics_some:
  "tryParseTopics r = Some ts \<Longrightarrow> ts \<noteq> [] \<and> length ts \<le> 5"
  by (auto simp: tryParseTopics_def split: option.splits json.splits if_splits)

lemma tryParseTopics_first_five:
  "jsonMatch r = Some m \<Longrightarrow> JSON_parse m = Some (JArray xs) \<Longrightarrow> xs \<noteq> [] \<Longrightarrow>
   tryParseTopics r = Some (take 5 xs)"
  by (simp add: tryParseTopics_def)

lemma jsonMatch_lazy:
  assumes "jsonMatch r = Some m"
  shows "\<exists>pre body post. r = pre @ m @ post \<and> m = ch CHR ''['' # body @ [ch CHR '']''] \<and>
           ch CHR ''['' \<notin> set pre \<and> ch CHR '']'' \<notin> set body"
proof -
  let ?pre = "takeWhile (\<lambda>c. c \<noteq> ch CHR ''['') r"
  from assms obtain b rest where dw: "dropWhile (\<lambda>c. c \<noteq> ch CHR ''['') r = b # rest"
    and mem: "ch CHR '']'' \<in> set rest"
    and m: "m = b # takeWhile (\<lambda>c. c \<noteq> ch CHR '']'') rest @ [ch CHR '']'']"
    by (auto simp: jsonMatch_def split: list.splits if_splits)
  from dw have b: "b = ch CHR ''[''"
    using hd_dropWhile [of "\<lambda>c. c \<noteq> ch CHR ''[''" r] by auto
  let ?body = "takeWhile (\<lambda>c. c \<noteq> ch CHR '']'') rest"
  from mem obtain post where post: "dropWhile (\<lambda>c. c \<noteq> ch CHR '']'') rest = ch CHR '']'' # post"
    using hd_dropWhile [of "\<lambda>c. c \<noteq> ch CHR '']''" rest]
    by (cases "dropWhile (\<lambda>c. c \<noteq> ch CHR '']'') rest") (auto simp: dropWhile_eq_Nil_conv)
  have "rest = ?body @ ch CHR '']'' # post"
    using post by (metis takeWhile_dropWhile_id)
  moreover have "r = ?pre @ b # rest"
    using dw by (metis takeWhile_dropWhile_id)
  ultimately have "r = ?pre @ m @ post" using m by simp
  moreover have "ch CHR ''['' \<notin> set ?pre"
    by (auto dest: set_takeWhileD)
  moreover have "ch CHR '']'' \<notin> set ?body"
    by (auto dest: set_takeWhileD)
  ultimately show ?thesis using m b by blast
qed

text \<open>
  C3, where the code departs from it. \<open>generateTopicSuggestions\<close> does not look for a
  balanced bracket pair: its pattern ends at the first closing bracket. For an answer of
  the very shape the prompt asks for, a JSON array of objects with an \<open>outline\<close> array,
  the text matched stops inside the first object, \<open>JSON.parse\<close> rejects it, and the
  method fails with the parse error although the answer is a valid array of one topic.
\<close>

theorem generateTopicSuggestions_nested_outline:
  "JSON_parse nestedResponse =
     Some (JArray [JObject [(js ''title'', JString (js ''T'')),
                            (js ''description'', JString (js ''D'')),
                            (js ''outline'', JArray [JString (js ''a''), JString (js ''b'')])]]) \<and>
   jsonMatch nestedResponse = Some nestedMatch \<and>
   JSON_parse nestedMatch = None \<and>
   fst (generateTopicSuggestions env_nested (js ''m'') w0) = Inl (Error msg_topic_parse_failed)"
proof -
  obtain w' where "callAI env_nested (topicPrompt (language_of env_nested) (js ''m''))
                     (onProgress msg_analyzing w0) = (Inr nestedResponse, w')"
    unfolding callAI_def
    using callAI_from_ok [OF _ callProvider_nested, of 1] by simp
  then have "fst (generateTopicSuggestions env_nested (js ''m'') w0) =
             Inl (Error msg_topic_parse_failed)"
    by (simp add: generateTopicSuggestions_def tryParseTopics_def jsonMatch_nested
          parse_nestedMatch)
  with parse_nestedResponse jsonMatch_nested parse_nestedMatch show ?thesis by simp
qed

section \<open>Properties of note creation\<close>

lemma callProvider_host:
  assumes "callProvider env prompt w = (r, w')"
  shows "materialNotePath w' = materialNotePath w \<and> vault w' = vault w \<and> creates w' = creates w \<and>
         notices w' = notices w \<and> opened w' = opened w \<and> suggestCalls w' = suggestCalls w"
  using assms
  by (auto simp: callProvider_def callGeminiWithTimeout_def callOpenAIWithTimeout_def
        callAnthropicWithTimeout_def requestUrl_def Let_def
      split: if_splits sum.splits option.splits prod.splits)

lemma callAI_from_host:
  "callAI_from env prompt attempt prev w = (r, w') \<Longrightarrow> same_host w w'"
proof (induction env prompt attempt prev w rule: callAI_from.induct)
  case (1 env prompt attempt prev w)
  show ?case
  proof (cases "attempt \<le> MAX_RETRIES")
    case False
    with 1(2) show ?thesis
      by (subst (asm) callAI_from.simps) (simp add: same_host_def)
  next
    case True
    obtain r1 w1 where c: "callProvider env prompt (onProgress (msg_calling attempt MAX_RETRIES) w) = (r1, w1)"
      by (cases "callProvider env prompt (onProgress (msg_calling attempt MAX_RETRIES) w)")
    from callProvider_host [OF c] have h1: "same_host w w1"
      by (simp add: same_host_def onProgress_def)
    show ?thesis
    proof (cases r1)
      case (Inr res)
      with 1(2) True c h1 show ?thesis
        by (subst (asm) callAI_from.simps) simp
    next
      case (Inl e)
      let ?w2 = "(if attempt < MAX_RETRIES then
                  (let delay = RETRY_DELAY * 2 ^ (attempt - 1)
                   in sleep delay (onProgress (msg_waiting (delay div 1000)) w1))
                else w1)"
      from 1(2) True c Inl have rec: "callAI_from env prompt (attempt + 1) (Some e) ?w2 = (r, w')"
        by (subst (asm) callAI_from.simps) simp
      have "same_host ?w2 w'"
        by (rule 1(1) [OF True c [symmetric] _ rec, unfolded Inl]) (simp add: Inl)
      moreover have "same_host w1 ?w2"
        by (simp add: same_host_def sleep_def onProgress_def Let_def)
      ultimately show ?thesis using h1 by (simp add: same_host_def)
    qed
  qed
qed

lemma createArticleNote_creates:
  assumes "materialNotePath w = Some mp" and "mp \<noteq> []"
    and "getAbstractFileByPath w mp = Some (TFile d parent)"
  shows "creates (snd (createArticleNote env content t w)) =
           creates w @
           [(freeName w (case parent of None \<Rightarrow> [] | Some p \<Rightarrow> p) (baseName_of (title t))
               (notePath (case parent of None \<Rightarrow> [] | Some p \<Rightarrow> p) (baseName_of (title t))) 1,
             fullContent (title t) (printed (pop (splitOn (ch CHR ''/'') (stripMd mp))))
               (printed (first (splitOn (ch CHR ''T'') (nowISO env)))) content)]"
  using assms by (simp add: createArticleNote_def vault_create_def Let_def)

lemma createArticleNote_host:
  "materialNotePath (snd (createArticleNote env content t w)) = materialNotePath w \<and>
   notices (snd (createArticleNote env content t w)) = notices w \<and>
   opened (snd (createArticleNote env content t w)) = opened w"
  by (simp add: createArticleNote_def vault_create_def Let_def
      split: option.splits entry.splits)

text \<open>
  C10. The file name of the article note: each of the characters
  \<open>\ / : * ? " < > |\<close> of the title is replaced by \<open>-\<close>, the result is cut to at most 50
  code units, and the path handed to \<open>vault.create\<close> is the plain name if nothing is
  there, and otherwise the name with the least counter from 1 on for which nothing is
  there. In either case nothing exists at the path handed over.
\<close>

theorem createArticleNote_file_name:
  assumes "materialNotePath w = Some mp" and "mp \<noteq> []"
    and "getAbstractFileByPath w mp = Some (TFile d parent)"
  shows "\<exists>path body base.
           creates (snd (createArticleNote env content t w)) = creates w @ [(path, body)] \<and>
           getAbstractFileByPath w path = None \<and>
           base = take 50 (map (\<lambda>c. if c \<in> {0x5C, ch CHR ''/'', ch CHR '':'', ch CHR ''*'',
                                               ch CHR ''?'', 0x22, ch CHR ''<'', ch CHR ''>'',
                                               ch CHR ''|''}
                                      then ch CHR ''-'' else c) (title t)) \<and>
           length base \<le> 50 \<and>
           (path = notePath (case parent of None \<Rightarrow> [] | Some p \<Rightarrow> p) base \<or>
            getAbstractFileByPath w (notePath (case parent of None \<Rightarrow> [] | Some p \<Rightarrow> p) base) \<noteq> None \<and>
            (\<exists>k\<ge>1. path = notePath (case parent of None \<Rightarrow> [] | Some p \<Rightarrow> p)
                               (base @ js '' '' @ digits k) \<and>
               (\<forall>j. 1 \<le> j \<and> j < k \<longrightarrow>
                  getAbstractFileByPath w
                    (notePath (case parent of None \<Rightarrow> [] | Some p \<Rightarrow> p)
                       (base @ js '' '' @ digits j)) \<noteq> None)))"
proof -
  let ?folder = "case parent of None \<Rightarrow> [] | Some p \<Rightarrow> p"
  let ?base = "baseName_of (title t)"
  let ?path = "freeName w ?folder ?base (notePath ?folder ?base) 1"
  have base: "?base = take 50 (map (\<lambda>c. if c \<in> {0x5C, ch CHR ''/'', ch CHR '':'', ch CHR ''*'',
                                               ch CHR ''?'', 0x22, ch CHR ''<'', ch CHR ''>'',
                                               ch CHR ''|''}
                                      then ch CHR ''-'' else c) (title t))"
    by (simp add: baseName_of_def is_forbidden_def)
  have len: "length ?base \<le> 50"
    by (simp add: baseName_of_def)
  from freeName_shape [of w ?folder ?base "notePath ?folder ?base" 1]
  have shape: "?path = notePath ?folder ?base \<or>
     getAbstractFileByPath w (notePath ?folder ?base) \<noteq> None \<and>
     (\<exists>k\<ge>1. ?path = notePath ?folder (?base @ js '' '' @ digits k) \<and>
        (\<forall>j. 1 \<le> j \<and> j < k \<longrightarrow>
           getAbstractFileByPath w (notePath ?folder (?base @ js '' '' @ digits j)) \<noteq> None))"
    by (simp add: numbered_def)
  from createArticleNote_creates [OF assms] freeName_free [of w ?folder ?base "notePath ?folder ?base" 1]
    base len shape
  show ?thesis by blast
qed

section \<open>Properties of the wizard\<close>

lemma render_loading:
  "isLoading m \<Longrightarrow> render (Suc n) env (m, w) = Some (m\<lparr>controls := banner m\<rparr>, w)"
  by (simp add: banner_def)

lemma render_step3:
  "\<not> isLoading m \<Longrightarrow> step m = 3 \<Longrightarrow>
   render (Suc n) env (m, w) = Some (renderStep3Style (m\<lparr>controls := banner m\<rparr>), w)"
  by (simp add: banner_def)

lemma generateArticle_host:
  "generateArticle env c opts w = (r, w') \<Longrightarrow> same_host w w'"
  unfolding generateArticle_def callAI_def
  by (drule callAI_from_host) (simp add: same_host_def onProgress_def)

lemma generationOptions_loading [simp]:
  "generationOptions (m\<lparr>isLoading := a, loadingStatus := b, controls := cs\<rparr>) r =
   generationOptions m r"
  by (simp add: generationOptions_def)

text \<open>
  C5. When \<open>generateArticle\<close> fails at step 4, \<open>renderStep4Generate\<close> returns normally:
  the modal is back at step 3 with the style controls on display, no longer loading,
  \<open>lastError\<close> holds the message of the error, and nothing was handed to \<open>vault.create\<close>
  (the vault is as before).
\<close>

theorem renderStep4Generate_failure:
  assumes sel: "selectedTopic m = Some r"
    and mc: "materialsContent m = Some c" "c \<noteq> []"
    and gen: "generateArticle env c (generationOptions m r) w = (Inl e, w')"
  shows "\<exists>m'. renderStep4Generate (Suc n) env (m, w) = Some (m', w') \<and>
           step m' = 3 \<and> lastError m' = Some (message e) \<and> \<not> isLoading m' \<and>
           closed m' = closed m \<and> GenerateBtn \<in> set (controls m') \<and>
           selectedTopic m' = selectedTopic m \<and> editedOutline m' = editedOutline m \<and>
           creates w' = creates w \<and> vault w' = vault w"
proof -
  let ?m1 = "m\<lparr>isLoading := True, loadingStatus := msg_preparing\<rparr>"
  let ?m2 = "?m1\<lparr>controls := banner ?m1\<rparr>"
  let ?m3 = "generationFailed e (reported w w' ?m2)"
  have r1: "render (Suc n) env (?m1, w) = Some (?m2, w)"
    by (rule render_loading) simp
  have r3: "render (Suc n) env (?m3, w') = Some (renderStep3Style (?m3\<lparr>controls := banner ?m3\<rparr>), w')"
    by (rule render_step3) (simp_all add: generationFailed_def reported_def)
  have "renderStep4Generate (Suc n) env (m, w) =
        Some (renderStep3Style (?m3\<lparr>controls := banner ?m3\<rparr>), w')"
    using sel mc gen by (simp add: r1 r3 del: render.simps)
  moreover from generateArticle_host [OF gen] have "creates w' = creates w" "vault w' = vault w"
    by (simp_all add: same_host_def)
  ultimately show ?thesis
    by (simp add: renderStep3Style_def generationFailed_def reported_def)
qed

lemma render_failed:
  "render (Suc n) env (generationFailed e m, w) =
   Some (renderStep3Style ((generationFailed e m)\<lparr>controls := banner (generationFailed e m)\<rparr>), w)"
  by (rule render_step3) (simp_all add: generationFailed_def)

text \<open>
  C9. When \<open>generateArticle\<close> succeeds at step 4, exactly one call of \<open>vault.create\<close>
  is made, and its body is, in this order: the heading \<open># \<close> with the topic title, a
  blank line, the info callout with the backlink to the materials note and the date part
  of the ISO time stamp, a blank line, a rule, the article text as returned, a rule, and
  the section \<open>## Sources\<close> with the backlink again.
\<close>

theorem renderStep4Generate_note_body:
  assumes sel: "selectedTopic m = Some r"
    and mc: "materialsContent m = Some c" "c \<noteq> []"
    and gen: "generateArticle env c (generationOptions m r) w = (Inr article, w2)"
    and mn: "materialNotePath w = Some mp" "mp \<noteq> []"
      "getAbstractFileByPath w mp = Some (TFile d parent)"
  shows "\<exists>m' w' path.
           renderStep4Generate (Suc n) env (m, w) = Some (m', w') \<and>
           creates w' = creates w @
             [(path,
               js ''# '' @ title (heap m ! r) @ [0x0A, 0x0A] @
               js ''> [!info] Generated with Thinking Tool'' @ [0x0A] @
               js ''> Materials: [['' @ printed (pop (splitOn (ch CHR ''/'') (stripMd mp))) @
               js '']]'' @ [0x0A] @
               js ''> Generated: '' @ printed (first (splitOn (ch CHR ''T'') (nowISO env))) @
               [0x0A, 0x0A] @
               js ''---'' @ [0x0A, 0x0A] @
               article @ [0x0A, 0x0A] @
               js ''---'' @ [0x0A, 0x0A] @
               js ''## Sources'' @ [0x0A, 0x0A] @
               js ''- Materials: [['' @ printed (pop (splitOn (ch CHR ''/'') (stripMd mp))) @
               js '']]'' @ [0x0A])]"
proof -
  let ?m1 = "m\<lparr>isLoading := True, loadingStatus := msg_preparing\<rparr>"
  let ?m2 = "?m1\<lparr>controls := banner ?m1\<rparr>"
  let ?m3 = "reported w w2 ?m2"
  have r1: "render (Suc n) env (?m1, w) = Some (?m2, w)"
    by (rule render_loading) simp
  from generateArticle_host [OF gen] have host: "same_host w w2" .
  with mn have mn2: "materialNotePath w2 = Some mp"
    "getAbstractFileByPath w2 mp = Some (TFile d parent)"
    by (simp_all add: same_host_def getAbstractFileByPath_def)
  obtain f w3 where can: "createArticleNote env article (heap m ! r) w2 = (f, w3)"
    by (cases "createArticleNote env article (heap m ! r) w2")
  from createArticleNote_creates [OF mn2(1) mn(2) mn2(2), of env article "heap m ! r"] can host
  obtain path where cr: "creates w3 = creates w @
      [(path, fullContent (title (heap m ! r)) (printed (pop (splitOn (ch CHR ''/'') (stripMd mp))))
                (printed (first (splitOn (ch CHR ''T'') (nowISO env)))) article)]"
    by (simp add: same_host_def)
  have "\<exists>m' w'. renderStep4Generate (Suc n) env (m, w) = Some (m', w') \<and> creates w' = creates w3"
  proof (cases f)
    case None
    with sel mc gen can show ?thesis
      by (simp add: r1 render_failed del: render.simps)
  next
    case (Some path')
    show ?thesis
    proof (cases "openFile env path'")
      case None
      with Some sel mc gen can show ?thesis
        by (simp add: r1 notice_def del: render.simps)
    next
      case (Some e)
      with \<open>f = Some path'\<close> sel mc gen can show ?thesis
        by (simp add: r1 render_failed notice_def del: render.simps)
    qed
  qed
  with cr show ?thesis
    by (auto simp: fullContent_def)
qed

text \<open>
  C8. When the materials count is below 1 at opening, the modal ends up at step 1 showing
  only the Close button, the world is untouched (no provider call, no request, no call
  for topic suggestions), every event other than Close is without effect, and Close closes
  the modal.
\<close>

theorem onOpen_without_materials:
  assumes "countMaterials (getMaterialsContent w) < 1"
  shows "\<exists>m. onOpen (Suc n) env w = Some (m, w) \<and>
           controls m = [CloseBtn] \<and> step m = 1 \<and> \<not> isLoading m \<and> topics m = [] \<and>
           \<not> closed m \<and>
           (\<forall>k ev. ev \<noteq> Close \<longrightarrow> fire k env ev (m, w) = Some (m, w)) \<and>
           (\<forall>k. fire k env Close (m, w) = Some (close m, w) \<and> closed (close m))"
proof -
  let ?m = "initial\<lparr>materialsContent := getMaterialsContent w,
                     materialCount := countMaterials (getMaterialsContent w),
                     controls := [CloseBtn]\<rparr>"
  have o: "onOpen (Suc n) env w = Some (?m, w)"
    using assms by (simp add: onOpen_def initial_def truthy_def)
  have other: "fire k env ev (?m, w) = Some (?m, w)" if "ev \<noteq> Close" for k ev
    using that by (cases ev) (simp_all add: fire_def control_of_def)
  have cl: "fire k env Close (?m, w) = Some (close ?m, w)" for k
    by (simp add: fire_def control_of_def handle_def initial_def)
  from o other cl show ?thesis
    by (intro exI [of _ ?m]) (simp add: initial_def close_def)
qed

lemmas sample_defs2 = env_server_error_def env_echo_def w_plain_def w_taken_def topic_AB_def
  m_ready_def

lemma callProvider_server_error:
  "callProvider env_server_error prompt w =
     (Inl (Error (msg_api_error OpenAI 500 [])),
      w\<lparr>calls := calls w + 1,
        sent := sent w @ [\<lparr>req_provider = OpenAI, req_key = js ''sk'', req_model = js ''gpt-4o'',
                           req_prompt = prompt\<rparr>]\<rparr>)"
  by (simp add: client_defs sample_defs env_server_error_def js_def)

lemma callProvider_echo:
  "callProvider env_echo prompt w =
     (Inr (js ''ARTICLE:A/B''),
      w\<lparr>calls := calls w + 1,
        sent := sent w @ [\<lparr>req_provider = OpenAI, req_key = js ''sk'', req_model = js ''gpt-4o'',
                           req_prompt = prompt\<rparr>]\<rparr>)"
  by (simp add: client_defs sample_defs env_echo_def js_def)

lemma msg_api_error_nonempty: "msg_api_error p st body \<noteq> []"
  by (cases p) (simp_all add: msg_api_error_def providerName_def js_def)

theorem renderStep4Generate_failure_witness:
  "\<exists>m' w'. renderStep4Generate 1 env_server_error (m_ready, w0) = Some (m', w') \<and>
     step m' = 3 \<and>
     lastError m' = Some (msg_exhausted 3 @ msg_api_error OpenAI 500 []) \<and>
     \<not> isLoading m' \<and> \<not> closed m' \<and> GenerateBtn \<in> set (controls m') \<and>
     selectedTopic m' = Some 0 \<and> creates w' = [] \<and> vault w' = vault w0 \<and> calls w' = 3"
proof -
  let ?c = "js ''> [!quote] [[Reading]]''"
  obtain w' where gen: "generateArticle env_server_error ?c (generationOptions m_ready 0) w0 =
      (Inl (Error (msg_exhausted 3 @ msg_api_error OpenAI 500 [])), w')" and c: "calls w' = 3"
    by (simp add: generateArticle_def
          callAI_all_fail [OF callProvider_server_error callProvider_server_error
            callProvider_server_error]
          msg_api_error_nonempty onProgress_def sleep_def w0_def)
  have sel: "selectedTopic m_ready = Some 0" and mc: "materialsContent m_ready = Some ?c"
    and ne: "?c \<noteq> []"
    by (simp_all add: m_ready_def initial_def js_def)
  from renderStep4Generate_failure [OF sel mc ne gen, of 0] c show ?thesis
    by (auto simp: m_ready_def initial_def w0_def One_nat_def)
qed

theorem onOpen_without_materials_witness:
  "countMaterials (getMaterialsContent w_plain) < 1 \<and>
   (\<exists>m. onOpen 1 env0 w_plain = Some (m, w_plain) \<and> controls m = [CloseBtn] \<and> step m = 1 \<and>
        fire 1 env0 Generate (m, w_plain) = Some (m, w_plain) \<and>
        fire 1 env0 Close (m, w_plain) = Some (close m, w_plain))"
proof -
  have h: "countMaterials (getMaterialsContent w_plain) < 1"
    by (simp add: countMaterials_def getMaterialsContent_def getAbstractFileByPath_def
          w_plain_def w0_def js_def is_space_def)
  from onOpen_without_materials [OF h, of 0 env0] h show ?thesis
    by (auto simp: One_nat_def)
qed

lemma w_taken_note:
  "materialNotePath w_taken = Some (js ''Notes/Reading - Materials.md'')"
  "js ''Notes/Reading - Materials.md'' \<noteq> []"
  "getAbstractFileByPath w_taken (js ''Notes/Reading - Materials.md'') =
     Some (TFile (js ''> [!quote] [[Reading]]'') (Some (js ''Notes'')))"
  by (simp_all add: w_taken_def w0_def getAbstractFileByPath_def js_def)

lemma materialBasename_sample:
  "printed (pop (splitOn (ch CHR ''/'') (stripMd (js ''Notes/Reading - Materials.md'')))) =
   js ''Reading - Materials''"
  by (simp add: printed_def pop_def stripMd_def js_def)

lemma date_sample:
  "printed (first (splitOn (ch CHR ''T'') (nowISO env_echo))) = js ''2025-01-31''"
  by (simp add: printed_def first_def env_echo_def env0_def js_def)

theorem renderStep4Generate_note_body_witness:
  "\<exists>m' w' path.
     renderStep4Generate 1 env_echo (m_ready, w_taken) = Some (m', w') \<and>
     creates w' =
       [(path,
         js ''# A/B'' @ [0x0A, 0x0A] @
         js ''> [!info] Generated with Thinking Tool'' @ [0x0A] @
         js ''> Materials: [[Reading - Materials]]'' @ [0x0A] @
         js ''> Generated: 2025-01-31'' @ [0x0A, 0x0A] @
         js ''---'' @ [0x0A, 0x0A] @
         js ''ARTICLE:A/B'' @ [0x0A, 0x0A] @
         js ''---'' @ [0x0A, 0x0A] @
         js ''## Sources'' @ [0x0A, 0x0A] @
         js ''- Materials: [[Reading - Materials]]'' @ [0x0A])]"
proof -
  let ?c = "js ''> [!quote] [[Reading]]''"
  obtain w2 where gen: "generateArticle env_echo ?c (generationOptions m_ready 0) w_taken =
      (Inr (js ''ARTICLE:A/B''), w2)"
    unfolding generateArticle_def callAI_def
    using callAI_from_ok [OF _ callProvider_echo, of 1] by simp
  have sel: "selectedTopic m_ready = Some 0" and mc: "materialsContent m_ready = Some ?c"
    and ne: "?c \<noteq> []"
    by (simp_all add: m_ready_def initial_def js_def)
  have t: "title (heap m_ready ! 0) = js ''A/B''" and cr: "creates w_taken = []"
    by (simp_all add: m_ready_def initial_def topic_AB_def w_taken_def w0_def)
  from renderStep4Generate_note_body [OF sel mc ne gen w_taken_note, of 0]
  show ?thesis
    unfolding materialBasename_sample date_sample t cr One_nat_def
    by (simp add: js_def)
qed

lemma freeName_sample:
  "freeName w_taken (js ''Notes'') (js ''A-B'') (js ''Notes/A-B.md'') 1 = js ''Notes/A-B 2.md''"
  by (simp add: freeName.simps numbered_def notePath_def getAbstractFileByPath_def w_taken_def
        w0_def digits.simps js_def)

lemma baseName_sample: "baseName_of (title topic_AB) = js ''A-B''"
  by (simp add: baseName_of_def is_forbidden_def topic_AB_def js_def)

lemma notePath_sample: "notePath (js ''Notes'') (js ''A-B'') = js ''Notes/A-B.md''"
  by (simp add: notePath_def js_def)

theorem createArticleNote_file_name_witness:
  "fst (hd (creates (snd (createArticleNote env0 (js ''text'') topic_AB w_taken)))) =
     js ''Notes/A-B 2.md'' \<and>
   (\<exists>path body.
      creates (snd (createArticleNote env0 (js ''text'') topic_AB w_taken)) =
        creates w_taken @ [(path, body)] \<and>
      getAbstractFileByPath w_taken path = None)"
proof -
  have cr: "creates w_taken = []"
    by (simp add: w_taken_def w0_def)
  have "fst (hd (creates (snd (createArticleNote env0 (js ''text'') topic_AB w_taken)))) =
        js ''Notes/A-B 2.md''"
    using freeName_sample
    by (simp add: createArticleNote_creates [OF w_taken_note] cr baseName_sample notePath_sample)
  moreover from createArticleNote_file_name [OF w_taken_note, of env0 "js ''text''" topic_AB]
  have "\<exists>path body.
      creates (snd (createArticleNote env0 (js ''text'') topic_AB w_taken)) =
        creates w_taken @ [(path, body)] \<and>
      getAbstractFileByPath w_taken path = None"
    by blast
  ultimately show ?thesis by simp
qed

subsection \<open>The invariant of a wizard session\<close>

lemma consistent_reported [simp]: "consistent k (reported w w' m) = consistent k m"
  by (simp add: consistent_def reported_def)

lemma selectedTopic_reported [simp]: "selectedTopic (reported w w' m) = selectedTopic m"
  by (simp add: reported_def)

lemma shown_reported [simp]: "shown (reported w w' m) = shown m"
  by (simp add: shown_def reported_def)


lemma render_0 [simp]: "render 0 env mw = None"
  by (cases mw) simp



declare render.simps [simp del] renderStep1Topics.simps [simp del] loadTopics.simps [simp del]
  renderStep4Generate.simps [simp del]






























lemmas modal_eval = session_def onOpen_def render.simps renderStep1Topics.simps loadTopics.simps
  renderStep4Generate.simps renderStep2Outline_def renderStep3Style_def fire_def handle_def
  control_of_def option_onclick_def topicNextBtn_onclick_def outlineNextBtn_onclick_def
  deleteBtn_onclick_def customBtn_onclick_def initial_def truthy_def reported_def notice_def
  countMaterials_def getMaterialsContent_def getAbstractFileByPath_def is_space_def

text \<open>
  Retry at step 1 without topics asks the synthesizer twice: once by the load that
  \<open>render\<close> starts, once by the load of the handler itself.
\<close>

lemma retryBtn_onclick_loads_twice:
  "retryBtn_onclick 3 env_topics (m_failed, w0) =
     Some (m_failed\<lparr>topics := [2, 3], loadingStatus := msg_analyzing, lastError := None,
                    heap := [topic_two, topic_AB, topic_two, topic_AB],
                    controls := [TopicOption 2, TopicOption 3, CustomBtn, RefreshBtn, CancelBtn,
                                 TopicNextBtn True]\<rparr>,
           w0\<lparr>suggestCalls := 2\<rparr>)"
  by (simp add: retryBtn_onclick_def m_failed_def modal_eval env_topics_def env0_def w0_def js_def
        numeral_3_eq_3)













end
